theory Spec2Isabelle
  imports Complex_Main "HOL-Library.Word"
begin

unbundle bit_operations_syntax

section \<open>Pixel values, images and stacks\<close>

text \<open>
  The source works on numpy arrays of IEEE doubles. A pixel value is modelled as the real
  number a finite double denotes, or as one of the three non-finite values. The result of
  an arithmetic operation on finite values is the exact result rounded to a double; the
  rounding is not modelled but taken as a parameter \<open>rnd\<close> (the collaborator \<open>fl\<close> below),
  and so is numpy's summation of a sequence (\<open>np_sum\<close> and \<open>np_sum0\<close> below). Where IEEE arithmetic is
  exact whatever the operand (a double times \<open>1.0\<close> or \<open>0.0\<close>, a double plus \<open>0.0\<close>,
  \<open>0.0 + 1.0\<close>) the exact result is written. Overflow and the sign of zero are not
  modelled. The non-finite values propagate as in IEEE 754, and comparisons with NaN are
  false, as in numpy.
\<close>

datatype fval = Fin real | PInf | NInf | NaN

fun isfinite :: "fval \<Rightarrow> bool" where
  "isfinite (Fin x) = True"
| "isfinite PInf = False"
| "isfinite NInf = False"
| "isfinite NaN = False"

text \<open>\<open>x >= c\<close>, \<open>x <= c\<close> and \<open>x > c\<close> for an array element \<open>x\<close> and a finite scalar \<open>c\<close>.\<close>

fun fge :: "fval \<Rightarrow> real \<Rightarrow> bool" where
  "fge (Fin x) c = (c \<le> x)"
| "fge PInf c = True"
| "fge NInf c = False"
| "fge NaN c = False"

fun fle :: "fval \<Rightarrow> real \<Rightarrow> bool" where
  "fle (Fin x) c = (x \<le> c)"
| "fle PInf c = False"
| "fle NInf c = True"
| "fle NaN c = False"

fun fgt :: "fval \<Rightarrow> real \<Rightarrow> bool" where
  "fgt (Fin x) c = (c < x)"
| "fgt PInf c = True"
| "fgt NInf c = False"
| "fgt NaN c = False"

fun fadd :: "(real \<Rightarrow> real) \<Rightarrow> fval \<Rightarrow> fval \<Rightarrow> fval" where
  "fadd rnd (Fin x) (Fin y) = Fin (rnd (x + y))"
| "fadd rnd NaN y = NaN"
| "fadd rnd x NaN = NaN"
| "fadd rnd PInf NInf = NaN"
| "fadd rnd NInf PInf = NaN"
| "fadd rnd PInf y = PInf"
| "fadd rnd x PInf = PInf"
| "fadd rnd NInf y = NInf"
| "fadd rnd x NInf = NInf"

fun fneg :: "fval \<Rightarrow> fval" where
  "fneg (Fin x) = Fin (- x)"
| "fneg PInf = NInf"
| "fneg NInf = PInf"
| "fneg NaN = NaN"

text \<open>The product of two elements: an infinity times zero is NaN.\<close>

fun fmul :: "(real \<Rightarrow> real) \<Rightarrow> fval \<Rightarrow> fval \<Rightarrow> fval" where
  "fmul rnd (Fin x) (Fin y) = Fin (rnd (x * y))"
| "fmul rnd NaN y = NaN"
| "fmul rnd x NaN = NaN"
| "fmul rnd PInf (Fin y) = (if 0 < y then PInf else if y < 0 then NInf else NaN)"
| "fmul rnd NInf (Fin y) = (if 0 < y then NInf else if y < 0 then PInf else NaN)"
| "fmul rnd (Fin x) PInf = (if 0 < x then PInf else if x < 0 then NInf else NaN)"
| "fmul rnd (Fin x) NInf = (if 0 < x then NInf else if x < 0 then PInf else NaN)"
| "fmul rnd PInf PInf = PInf"
| "fmul rnd PInf NInf = NInf"
| "fmul rnd NInf PInf = NInf"
| "fmul rnd NInf NInf = PInf"

text \<open>
  The quotient of two elements. numpy does not raise on a zero divisor, it yields an
  infinity or NaN (the divisor's zero is taken as \<open>+0.0\<close>).
\<close>

fun fdiv :: "(real \<Rightarrow> real) \<Rightarrow> fval \<Rightarrow> fval \<Rightarrow> fval" where
  "fdiv rnd (Fin x) (Fin y) =
     (if y = 0 then (if x = 0 then NaN else if 0 < x then PInf else NInf)
      else Fin (rnd (x / y)))"
| "fdiv rnd NaN y = NaN"
| "fdiv rnd x NaN = NaN"
| "fdiv rnd (Fin x) PInf = Fin 0"
| "fdiv rnd (Fin x) NInf = Fin 0"
| "fdiv rnd PInf (Fin y) = (if 0 \<le> y then PInf else NInf)"
| "fdiv rnd NInf (Fin y) = (if 0 \<le> y then NInf else PInf)"
| "fdiv rnd PInf PInf = NaN"
| "fdiv rnd PInf NInf = NaN"
| "fdiv rnd NInf PInf = NaN"
| "fdiv rnd NInf NInf = NaN"

text \<open>
  An image is a two-dimensional array indexed by (spectral, spatial) pixel; every image of
  one reduction has the detector's trimmed shape. Element-wise numpy expressions become
  pixel-wise functions. A stack (the three-dimensional arrays of \<open>read_stack\<close>, frame
  index first) is a list of images.
\<close>

type_synonym 'a image = "nat \<Rightarrow> nat \<Rightarrow> 'a"

definition pixels :: "nat \<times> nat \<Rightarrow> (nat \<times> nat) list" where
  "pixels sh = concat (map (\<lambda>i. map (\<lambda>j. (i, j)) [0..<snd sh]) [0..<fst sh])"

text \<open>\<open>a[m]\<close> for a boolean image \<open>m\<close>: the selected elements, in row-major order.\<close>

definition select :: "nat \<times> nat \<Rightarrow> bool image \<Rightarrow> 'a image \<Rightarrow> 'a list" where
  "select sh m a = map (\<lambda>(i, j). a i j) (filter (\<lambda>(i, j). m i j) (pixels sh))"

text \<open>\<open>a[m] = b[m]\<close>: assignment into the selected elements only.\<close>

definition assign_where :: "bool image \<Rightarrow> 'a image \<Rightarrow> 'a image \<Rightarrow> 'a image" where
  "assign_where m b a = (\<lambda>i j. if m i j then b i j else a i j)"

section \<open>The bit mask\<close>

text \<open>
  The nine flags of \<open>ScienceImageBitMask\<close>, in the order of declaration.
\<close>

datatype flag = BPM | CR | SATURATION | MINCOUNTS | OFFSLITS | IS_NAN | IVAR0 | IVAR_NAN | EXTRACT

text \<open>
  Modelled from the spec: the class \<open>BitMask\<close> (\<open>pypeit/bitmask.py\<close>) is not among the
  sources. Each name gets a unique bit index in declaration order.
\<close>

fun bits :: "flag \<Rightarrow> nat" where
  "bits BPM = 0"
| "bits CR = 1"
| "bits SATURATION = 2"
| "bits MINCOUNTS = 3"
| "bits OFFSLITS = 4"
| "bits IS_NAN = 5"
| "bits IVAR0 = 6"
| "bits IVAR_NAN = 7"
| "bits EXTRACT = 8"

text \<open>
  Modelled from the spec: \<open>minimum_dtype\<close> of the missing class \<open>BitMask\<close> is the smallest
  unsigned integer width holding the largest bit index; nine flags need 16 bits.
\<close>

type_synonym mask_t = "16 word"

text \<open>
  Modelled from the spec: \<open>turn_on\<close> of the missing class \<open>BitMask\<close> sets the bit of the
  named flag and returns the updated value.
\<close>

definition turn_on :: "mask_t \<Rightarrow> flag \<Rightarrow> mask_t" where
  "turn_on v f = v OR push_bit (bits f) 1"

text \<open>
  Modelled from the spec: \<open>flagged\<close> of the missing class \<open>BitMask\<close>, for one flag.
\<close>

definition flagged :: "mask_t \<Rightarrow> flag \<Rightarrow> bool" where
  "flagged v f = bit v (bits f)"

text \<open>\<open>mask[indx] = self.bitmask.turn_on(mask[indx], f)\<close>\<close>

definition turn_on_where :: "bool image \<Rightarrow> flag \<Rightarrow> mask_t image \<Rightarrow> mask_t image" where
  "turn_on_where indx f msk = (\<lambda>i j. if indx i j then turn_on (msk i j) f else msk i j)"

section \<open>Errors\<close>

text \<open>
  Modelled from the spec: the module \<open>pypeit.msgs\<close> is not among the sources; its
  \<open>msgs.error\<close> fails the call with a configuration or prerequisite error, here
  \<open>PypeItError\<close> with the message, and its \<open>msgs.warn\<close> and \<open>msgs.info\<close> only log.
  The next four constructors are Python's own exceptions, with the name they complain
  about; \<open>ServiceError\<close> is an exception raised inside an external collaborator;
  \<open>OutsideModel\<close> marks inputs whose treatment by numpy (operands that are \<open>None\<close>) is
  not modelled.
\<close>

datatype error =
    PypeItError string
  | TypeError string
  | AttributeError string
  | UnboundLocalError string
  | IndexError string
  | ServiceError string
  | OutsideModel string

section \<open>The state of a reduction and its collaborators\<close>

text \<open>
  \<open>tslits_dict\<close>: the left and right edge traces. The source holds two arrays of shape
  (nspec, nslits) and reads the column \<open>[:, slit]\<close>; here each is the list of its columns,
  so that \<open>shape[1]\<close> is the length of the list.
\<close>

record tslits =
  lcen :: "real list list"
  rcen :: "real list list"

text \<open>An entry of the object list; only the slit it lies on matters to the control flow.\<close>

record specobj =
  slitid :: nat
  objid :: nat

text \<open>What \<open>ProcessImages\<close> delivers for one raw file.\<close>

record frame =
  fr_sciimg :: "fval image"
  fr_rawvarframe :: "fval image"
  fr_rn2img :: "fval image"

text \<open>What \<open>skysub.local_skysub_extract\<close> returns for one slit.\<close>

record lse_result =
  lse_skymodel :: "fval image"
  lse_objmodel :: "fval image"
  lse_ivarmodel :: "fval image"
  lse_extractmask :: "bool image"

text \<open>
  The attributes of a \<open>ScienceImage\<close> that the modelled methods read or write. \<open>None\<close>
  is Python's \<open>None\<close>; for \<open>rn2img\<close> and \<open>waveimg\<close>, which the constructor does not
  create, it is the missing attribute. The field \<open>mask_v\<close> is the attribute \<open>mask\<close>.
\<close>

record sci =
  file_list :: "string list"
  bg_file_list :: "string list"
  nsci :: nat
  nbg :: nat
  ir_redux :: bool
  bpm :: "int image option"
  bias :: "fval image option"
  pixel_flat :: "fval image option"
  illum_flat :: "fval image option"
  steps :: "string list"
  tslits_dict :: "tslits option"
  tilts :: "fval image option"
  waveimg :: "fval image option"
  maskslits :: "bool list option"
  slitmask :: "int image option"
  sciimg :: "fval image option"
  sciivar :: "fval image option"
  rn2img :: "fval image option"
  ivarmodel :: "fval image option"
  objmodel :: "fval image option"
  skymodel :: "fval image option"
  global_sky :: "fval image option"
  skymask :: "bool image option"
  outmask :: "mask_t image option"
  mask_v :: "mask_t image option"
  extractmask :: "bool image option"
  sobjs :: "specobj list option"
  crmask :: "bool image option"

text \<open>
  The collaborators, none of which is among the sources, as parameters: the rounding \<open>fl\<close>
  of an exact result to a double, numpy's sum \<open>np_sum\<close> of the elements of a selection and
  its sum \<open>np_sum0\<close> along the first axis of a stack (of the values of one pixel), the
  detector's shape and its \<open>saturation\<close> and \<open>mincounts\<close> entries, the spectrograph's \<open>slitmask\<close>,
  \<open>ProcessImages\<close>, \<open>utils.calc_ivar\<close> (pixel-wise), \<open>procimg.lacosmic\<close> (image and
  variance to cosmic-ray mask), astropy's \<open>SigmaClip\<close> (sigma, iterations, data and its
  mask to the mask of the clipped data), \<open>skysub.global_skysub\<close> and
  \<open>skysub.local_skysub_extract\<close>. Those that read files or fit may raise.
\<close>

record collab =
  fl :: "real \<Rightarrow> real"
  np_sum :: "fval list \<Rightarrow> fval"
  np_sum0 :: "fval list \<Rightarrow> fval"
  det_shape :: "nat \<times> nat"
  saturation :: real
  mincounts :: real
  slitmask_svc :: "tslits option \<Rightarrow> error + int image"
  process_file :: "string \<Rightarrow> fval image option \<Rightarrow> fval image option \<Rightarrow> fval image option
                     \<Rightarrow> int image option \<Rightarrow> error + frame"
  calc_ivar :: "fval \<Rightarrow> fval"
  lacosmic :: "fval image \<Rightarrow> fval image \<Rightarrow> bool image"
  sigclip :: "real \<Rightarrow> int \<Rightarrow> fval image list \<Rightarrow> bool image list \<Rightarrow> bool image list"
  global_skysub_fit :: "fval image \<Rightarrow> fval image \<Rightarrow> fval image \<Rightarrow> bool image \<Rightarrow> real list
                          \<Rightarrow> real list \<Rightarrow> bool image \<Rightarrow> int \<Rightarrow> error + fval image"
  local_skysub_extract_fit :: "fval image \<Rightarrow> fval image \<Rightarrow> fval image \<Rightarrow> fval image
                          \<Rightarrow> fval image \<Rightarrow> fval image \<Rightarrow> bool image \<Rightarrow> real list \<Rightarrow> real list
                          \<Rightarrow> specobj list \<Rightarrow> bool image \<Rightarrow> error + lse_result"

text \<open>The constructor \<open>__init__\<close>: everything but the file lists is \<open>None\<close>.\<close>

definition init :: "string list \<Rightarrow> string list \<Rightarrow> sci" where
  "init files bg_files =
     \<lparr> file_list = files, bg_file_list = bg_files, nsci = length files,
       nbg = length bg_files, ir_redux = (0 < length bg_files),
       bpm = None, bias = None, pixel_flat = None, illum_flat = None, steps = [],
       tslits_dict = None, tilts = None, waveimg = None, maskslits = None, slitmask = None,
       sciimg = None, sciivar = None, rn2img = None, ivarmodel = None, objmodel = None,
       skymodel = None, global_sky = None, skymask = None, outmask = None, mask_v = None,
       extractmask = None, sobjs = None, crmask = None \<rparr>"

section \<open>Building the composite mask\<close>

text \<open>
  Python's truth value of an integer, and \<open>~\<close> on a \<open>bool\<close>, which is an integer there:
  \<open>~True\<close> is \<open>-2\<close> and \<open>~False\<close> is \<open>-1\<close>.
\<close>

definition truthy :: "int \<Rightarrow> bool" where
  "truthy n = (n \<noteq> 0)"

definition py_invert :: "bool \<Rightarrow> int" where
  "py_invert b = - (of_bool b) - 1"

text \<open>
  \<open>_build_mask(self, sciimg, sciivar, crmask, mincounts=True, slitmask=None)\<close>. The
  argument \<open>slitmask\<close> is only tested against \<open>None\<close>; the pixels off the slits are read
  from the attribute \<open>self.slitmask\<close>, and comparing an attribute that is \<open>None\<close> with
  \<open>-1\<close> selects no pixel. \<open>self.bpm.astype\<close> raises when \<open>bpm\<close> is \<open>None\<close>.
\<close>

definition build_mask ::
  "collab \<Rightarrow> sci \<Rightarrow> fval image \<Rightarrow> fval image \<Rightarrow> bool image \<Rightarrow> int \<Rightarrow> int image option
     \<Rightarrow> error + mask_t image" where
  "build_mask c self sciimg_a sciivar_a crmask_a mincounts_a slitmask_a =
     (let m0 = (\<lambda>i j. 0) in
      case bpm self of
        None \<Rightarrow> Inl (AttributeError ''astype'')
      | Some b \<Rightarrow>
         (let m1 = turn_on_where (\<lambda>i j. b i j \<noteq> 0) BPM m0;
              m2 = turn_on_where crmask_a CR m1;
              m3 = turn_on_where (\<lambda>i j. fge (sciimg_a i j) (saturation c)) SATURATION m2;
              m4 = (if truthy mincounts_a
                    then turn_on_where (\<lambda>i j. fle (sciimg_a i j) (mincounts c)) MINCOUNTS m3
                    else m3);
              m5 = (case slitmask_a of
                      None \<Rightarrow> m4
                    | Some _ \<Rightarrow>
                       (case slitmask self of
                          None \<Rightarrow> m4
                        | Some sm \<Rightarrow> turn_on_where (\<lambda>i j. sm i j = - 1) OFFSLITS m4));
              m6 = turn_on_where (\<lambda>i j. \<not> isfinite (sciimg_a i j)) IS_NAN m5;
              m7 = turn_on_where (\<lambda>i j. \<not> fgt (sciivar_a i j) 0) IVAR0 m6;
              m8 = turn_on_where (\<lambda>i j. \<not> isfinite (sciivar_a i j)) IVAR_NAN m7
          in Inr m8))"

section \<open>Reading and combining the frames\<close>

text \<open>\<open>build_crmask(self, stack, ivar)\<close>: the variance handed to \<open>lacosmic\<close> is \<open>calc_ivar(ivar)\<close>.\<close>

definition build_crmask :: "collab \<Rightarrow> fval image \<Rightarrow> fval image \<Rightarrow> bool image" where
  "build_crmask c stack ivar = lacosmic c stack (\<lambda>i j. calc_ivar c (ivar i j))"

record stacks =
  sciimg_stack :: "fval image list"
  sciivar_stack :: "fval image list"
  rn2img_stack :: "fval image list"
  crmask_stack :: "bool image list"
  mask_stack :: "mask_t image list"

text \<open>
  The loop of \<open>read_stack\<close>: each file is processed, its inverse variance computed from the
  raw variance, its cosmic rays detected when \<open>cosmics\<close> is set (otherwise the frame's slice
  of \<open>crmask_stack\<close> keeps its zeros), and its mask built with the default \<open>mincounts=True\<close>
  and no slit mask.
\<close>

fun read_loop ::
  "collab \<Rightarrow> sci \<Rightarrow> fval image option \<Rightarrow> fval image option \<Rightarrow> int image option
     \<Rightarrow> fval image option \<Rightarrow> bool \<Rightarrow> string list \<Rightarrow> stacks \<Rightarrow> error + stacks" where
  "read_loop c self bias_a pixel_flat_a bpm_a illum_flat_a cosmics [] st = Inr st"
| "read_loop c self bias_a pixel_flat_a bpm_a illum_flat_a cosmics (f # fs) st =
     (case process_file c f bias_a pixel_flat_a illum_flat_a bpm_a of
        Inl e \<Rightarrow> Inl e
      | Inr fr \<Rightarrow>
         (let ivar = (\<lambda>i j. calc_ivar c (fr_rawvarframe fr i j));
              cr = (if cosmics then build_crmask c (fr_sciimg fr) ivar else (\<lambda>i j. False))
          in case build_mask c self (fr_sciimg fr) ivar cr 1 None of
               Inl e \<Rightarrow> Inl e
             | Inr m \<Rightarrow>
                read_loop c self bias_a pixel_flat_a bpm_a illum_flat_a cosmics fs
                  \<lparr> sciimg_stack = sciimg_stack st @ [fr_sciimg fr],
                    sciivar_stack = sciivar_stack st @ [ivar],
                    rn2img_stack = rn2img_stack st @ [fr_rn2img fr],
                    crmask_stack = crmask_stack st @ [cr],
                    mask_stack = mask_stack st @ [m] \<rparr>))"

text \<open>
  \<open>read_stack\<close>: the stacks are allocated inside the loop, at the first file, so with no
  file at all the \<open>return\<close> finds them unbound.
\<close>

definition read_stack ::
  "collab \<Rightarrow> sci \<Rightarrow> string list \<Rightarrow> fval image option \<Rightarrow> fval image option \<Rightarrow> int image option
     \<Rightarrow> fval image option \<Rightarrow> bool \<Rightarrow> error + stacks" where
  "read_stack c self files bias_a pixel_flat_a bpm_a illum_flat_a cosmics =
     (if files = [] then Inl (UnboundLocalError ''sciimg_stack'')
      else read_loop c self bias_a pixel_flat_a bpm_a illum_flat_a cosmics files
             \<lparr> sciimg_stack = [], sciivar_stack = [], rn2img_stack = [], crmask_stack = [],
               mask_stack = [] \<rparr>)"

text \<open>The rejection threshold chosen when sigma clipping is asked for without one.\<close>

definition default_sigrej :: "nat \<Rightarrow> real" where
  "default_sigrej n =
     (if n \<le> 2 then 100 else if n = 3 then 11 / 10 else if n = 4 then 13 / 10
      else if n = 5 then 16 / 10 else if n = 6 then 19 / 10 else 2)"

text \<open>
  The weight vector: \<open>1/nsci\<close> for each science frame and, when differencing, \<open>-1/nbg\<close> for
  each background frame.
\<close>

definition weights_of :: "collab \<Rightarrow> sci \<Rightarrow> real list" where
  "weights_of c self =
     (if ir_redux self
      then replicate (nsci self) (fl c (1 / real (nsci self)))
           @ replicate (nbg self) (fl c (- 1 / real (nbg self)))
      else replicate (nsci self) (fl c (1 / real (nsci self))))"

text \<open>
  \<open>np.einsum('i,ijk->ijk', weights, outmask_stack)\<close>: a frame's weight where it is used,
  else 0 (the product of the weight with the boolean, which is exact).
\<close>

definition weights_stack_of :: "real list \<Rightarrow> bool image list \<Rightarrow> real image list" where
  "weights_stack_of weights outmask_stack =
     map2 (\<lambda>w om. (\<lambda>i j. w * of_bool (om i j))) weights outmask_stack"

text \<open>\<open>np.sum(weights_stack, axis=0)\<close>: numpy's sum of the weights used at each pixel.\<close>

definition weights_sum_of_stack :: "collab \<Rightarrow> real image list \<Rightarrow> fval image" where
  "weights_sum_of_stack c weights_stack =
     (\<lambda>i j. np_sum0 c (map (\<lambda>w. Fin (w i j)) weights_stack))"

text \<open>\<open>np.sum(crmask_stack,axis=0)\<close>: the number of frames that flag each pixel.\<close>

definition count0 :: "bool image list \<Rightarrow> nat image" where
  "count0 st = (\<lambda>i j. sum_list (map (\<lambda>a. of_bool (a i j)) st))"

text \<open>
  \<open>weights_sum + (weights_sum == 0.0)\<close>, the divisor of the normalisation: one is added
  to a sum that is zero and zero to any other, and both additions are exact.
\<close>

definition denom :: "fval image \<Rightarrow> fval image" where
  "denom weights_sum = (\<lambda>i j. if weights_sum i j = Fin 0 then Fin 1 else weights_sum i j)"

text \<open>
  \<open>np.sum(stack*weights_stack,axis=0)/d\<close> and \<open>np.sum(stack*weights_stack**2,axis=0)/d**2\<close>
  for the divisor \<open>d\<close>: every product, square and quotient is rounded, and the sum over
  the frames is numpy's.
\<close>

definition wmean ::
  "collab \<Rightarrow> fval image list \<Rightarrow> real image list \<Rightarrow> fval image \<Rightarrow> fval image" where
  "wmean c st wst weights_sum =
     (\<lambda>i j. fdiv (fl c)
              (np_sum0 c (map2 (\<lambda>a w. fmul (fl c) (a i j) (Fin (w i j))) st wst))
              (denom weights_sum i j))"

definition wvar ::
  "collab \<Rightarrow> fval image list \<Rightarrow> real image list \<Rightarrow> fval image \<Rightarrow> fval image" where
  "wvar c st wst weights_sum =
     (\<lambda>i j. fdiv (fl c)
              (np_sum0 c
                 (map2 (\<lambda>a w. fmul (fl c) (a i j) (Fin (fl c (w i j * w i j)))) st wst))
              (fmul (fl c) (denom weights_sum i j) (denom weights_sum i j)))"

text \<open>The images \<open>proc\<close> stores: the combined image, inverse variance, read noise, mask and
  cosmic-ray mask.\<close>

record combined =
  cb_sciimg :: "fval image"
  cb_sciivar :: "fval image"
  cb_rn2img :: "fval image"
  cb_mask :: "mask_t image"
  cb_crmask :: "bool image"

text \<open>
  The choice of \<open>outmask_stack\<close> in \<open>proc\<close>, for more than one science frame: with sigma
  clipping it is assigned only when there are more than two science frames, and stays
  unbound (\<open>None\<close>) otherwise.
\<close>

definition outmask_stack_of ::
  "collab \<Rightarrow> sci \<Rightarrow> stacks \<Rightarrow> bool \<Rightarrow> real \<Rightarrow> int \<Rightarrow> bool image list option" where
  "outmask_stack_of c self st sigma_clip sigrej maxiters =
     (if sigma_clip
      then (if 2 < nsci self
            then Some (map (\<lambda>m. (\<lambda>i j. \<not> m i j))
                        (sigclip c sigrej maxiters (sciimg_stack st)
                           (map (\<lambda>m. (\<lambda>i j. 0 < m i j)) (mask_stack st))))
            else None)
      else Some (map (\<lambda>m. (\<lambda>i j. m i j = 0)) (mask_stack st)))"

text \<open>The branch of \<open>proc\<close> for more than one science frame.\<close>

definition combine ::
  "collab \<Rightarrow> sci \<Rightarrow> stacks \<Rightarrow> real list \<Rightarrow> nat \<Rightarrow> bool \<Rightarrow> real \<Rightarrow> int \<Rightarrow> error + combined" where
  "combine c self st weights nfiles sigma_clip sigrej maxiters =
     (case outmask_stack_of c self st sigma_clip sigrej maxiters of
        None \<Rightarrow> Inl (UnboundLocalError ''outmask_stack'')
      | Some outmask_stack \<Rightarrow>
         (let var_stack = map (\<lambda>a. (\<lambda>i j. calc_ivar c (a i j))) (sciivar_stack st);
              weights_stack = weights_stack_of weights outmask_stack;
              weights_sum = weights_sum_of_stack c weights_stack;
              crmask_c = (\<lambda>i j. count0 (crmask_stack st) i j = nfiles);
              sciimg_c = wmean c (sciimg_stack st) weights_stack weights_sum;
              varfinal = wvar c var_stack weights_stack weights_sum;
              sciivar_c = (\<lambda>i j. calc_ivar c (varfinal i j));
              rn2img_c = wvar c (rn2img_stack st) weights_stack weights_sum
          in case build_mask c self sciimg_c sciivar_c crmask_c (py_invert (ir_redux self)) None of
               Inl e \<Rightarrow> Inl e
             | Inr m \<Rightarrow>
                Inr \<lparr> cb_sciimg = sciimg_c, cb_sciivar = sciivar_c, cb_rn2img = rn2img_c,
                      cb_mask = m, cb_crmask = crmask_c \<rparr>))"

text \<open>The branch of \<open>proc\<close> for at most one science frame: the first frame of each stack.\<close>

definition first_frame :: "stacks \<Rightarrow> error + combined" where
  "first_frame st =
     (case (sciimg_stack st, sciivar_stack st, rn2img_stack st, crmask_stack st, mask_stack st) of
        (a # _, v # _, r # _, cr # _, m # _) \<Rightarrow>
          Inr \<lparr> cb_sciimg = a, cb_sciivar = v, cb_rn2img = r, cb_mask = m, cb_crmask = cr \<rparr>
      | _ \<Rightarrow> Inl (IndexError ''stack''))"

text \<open>
  \<open>proc(self, bias, pixel_flat, bpm, illum_flat=None, sigma_clip=False, sigrej=None,
  maxiters=5)\<close>, without the display. The result is the updated object; the tuple the
  source returns consists of its attributes \<open>sciimg\<close>, \<open>sciivar\<close>, \<open>rn2img\<close>, \<open>mask\<close> and
  \<open>crmask\<close>. The threshold \<open>sigrej\<close> is read under \<open>sigma_clip\<close> only, where it is the
  argument or, without one, the default.
\<close>

definition proc ::
  "collab \<Rightarrow> sci \<Rightarrow> fval image option \<Rightarrow> fval image option \<Rightarrow> int image option
     \<Rightarrow> fval image option \<Rightarrow> bool \<Rightarrow> real option \<Rightarrow> int \<Rightarrow> error + sci" where
  "proc c self0 bias_a pixel_flat_a bpm_a illum_flat_a sigma_clip sigrej_a maxiters =
     (let self = self0\<lparr> bpm := bpm_a, bias := bias_a, pixel_flat := pixel_flat_a,
                        illum_flat := illum_flat_a \<rparr>
      in if ir_redux self \<and> sigma_clip
         then Inl (PypeItError
                ''You cannot sigma clip with difference imaging as this will reject objects'')
         else
          (let all_files = (if ir_redux self then file_list self @ bg_file_list self
                            else file_list self);
               cosmics = (\<not> ir_redux self);
               weights = weights_of c self
           in case read_stack c self all_files bias_a pixel_flat_a bpm_a illum_flat_a cosmics of
                Inl e \<Rightarrow> Inl e
              | Inr st \<Rightarrow>
                 (let nfiles = length all_files;
                      sigrej = (case sigrej_a of
                                  None \<Rightarrow> default_sigrej (nsci self)
                                | Some s \<Rightarrow> s)
                  in case (if 1 < nsci self
                           then combine c self st weights nfiles sigma_clip sigrej maxiters
                           else first_frame st) of
                       Inl e \<Rightarrow> Inl e
                     | Inr r \<Rightarrow>
                        Inr (self\<lparr> mask_v := Some (cb_mask r),
                                   sciimg := Some (cb_sciimg r),
                                   sciivar := Some (cb_sciivar r),
                                   rn2img := Some (cb_rn2img r),
                                   crmask := Some (if ir_redux self
                                                   then build_crmask c (cb_sciimg r) (cb_sciivar r)
                                                   else cb_crmask r) \<rparr>))))"

section \<open>The slit loops\<close>

text \<open>
  \<open>_get_goodslits(self, maskslits)\<close>: the argument if there is one, else the attribute, else
  no slit masked, for which the number of slits is read from \<open>self.tslits_dict['lcen']\<close>;
  subscripting \<open>None\<close> raises a \<open>TypeError\<close>. Returns the slit selection and the object.
\<close>

definition get_goodslits :: "sci \<Rightarrow> bool list option \<Rightarrow> error + bool list \<times> sci" where
  "get_goodslits self maskslits_a =
     (case maskslits_a of
        Some ms \<Rightarrow> Inr (ms, self\<lparr> maskslits := Some ms \<rparr>)
      | None \<Rightarrow>
         (case maskslits self of
            None \<Rightarrow>
              (case tslits_dict self of
                 None \<Rightarrow> Inl (TypeError ''NoneType object is not subscriptable'')
               | Some t \<Rightarrow>
                  (let ms = replicate (length (lcen t)) False
                   in Inr (ms, self\<lparr> maskslits := Some ms \<rparr>)))
          | Some ms \<Rightarrow> Inr (ms, self)))"

text \<open>\<open>np.where(~maskslits)[0]\<close>: the indices of the slits that are not masked.\<close>

definition gdslits_of :: "bool list \<Rightarrow> nat list" where
  "gdslits_of ms = filter (\<lambda>s. \<not> ms ! s) [0..<length ms]"

text \<open>
  \<open>getattr(self, obj) is None\<close> for the names \<open>_chk_objs\<close> is called with. The constructor
  does not create \<open>rn2img\<close>, so reading it before \<open>proc\<close> raises.
\<close>

definition attr_is_none :: "sci \<Rightarrow> string \<Rightarrow> error + bool" where
  "attr_is_none self obj =
     (if obj = ''sciimg'' then Inr (Option.is_none (sciimg self))
      else if obj = ''sciivar'' then Inr (Option.is_none (sciivar self))
      else if obj = ''rn2img''
        then (if Option.is_none (rn2img self) then Inl (AttributeError ''rn2img'') else Inr False)
      else if obj = ''global_sky'' then Inr (Option.is_none (global_sky self))
      else if obj = ''tilts'' then Inr (Option.is_none (tilts self))
      else if obj = ''waveimg'' then Inr (Option.is_none (waveimg self))
      else if obj = ''tslits_dict'' then Inr (Option.is_none (tslits_dict self))
      else Inl (AttributeError obj))"

text \<open>The second warning of \<open>_chk_objs\<close>, naming the method to run.\<close>

definition chk_hint :: "string \<Rightarrow> string list" where
  "chk_hint obj =
     (if obj \<in> set [''sciimg'', ''sciivar'', ''rn2_img''] then [''Run the process() method'']
      else if obj \<in> set [''sobjs_obj''] then [''Run the find_objects() method'']
      else if obj \<in> set [''global_sky''] then [''Run the global_skysub() method'']
      else if obj \<in> set [''tilts'', ''tslits_dict'']
        then [''Calibrations missing: these were required to run find_objects() and global_skysub()'']
      else if obj \<in> set [''waveimg'']
        then [''Calibrations missing: waveimg must be input as a parameter. Try running calibrations'']
      else [])"

text \<open>
  \<open>_chk_objs(self, items)\<close>: whether every attribute is set, with the warnings issued for
  the first one that is not.
\<close>

fun chk_objs :: "sci \<Rightarrow> string list \<Rightarrow> error + bool \<times> string list" where
  "chk_objs self [] = Inr (True, [])"
| "chk_objs self (obj # items) =
     (case attr_is_none self obj of
        Inl e \<Rightarrow> Inl e
      | Inr True \<Rightarrow>
          Inr (False, (''You need to generate '' @ obj @ '' prior to this step..'') # chk_hint obj)
      | Inr False \<Rightarrow> chk_objs self items)"

text \<open>The element-wise difference \<open>a - b\<close> of two images.\<close>

definition img_sub :: "collab \<Rightarrow> fval image \<Rightarrow> fval image \<Rightarrow> fval image" where
  "img_sub c a b = (\<lambda>i j. fadd (fl c) (a i j) (fneg (b i j)))"

text \<open>\<open>thismask = (self.slitmask == slit)\<close>: the pixels of one slit.\<close>

definition thismask_of :: "int image \<Rightarrow> nat \<Rightarrow> bool image" where
  "thismask_of slm slit = (\<lambda>i j. slm i j = int slit)"

text \<open>
  The call of \<open>skysub.global_skysub\<close> for one slit, with the slit's pixels, its two edge
  columns and its input mask \<open>inmask = (self.mask == 0) & (self.crmask == False) & thismask
  & skymask\<close>.
\<close>

definition gs_fit ::
  "collab \<Rightarrow> fval image \<Rightarrow> fval image \<Rightarrow> fval image \<Rightarrow> mask_t image \<Rightarrow> bool image \<Rightarrow> int image
     \<Rightarrow> tslits \<Rightarrow> bool image \<Rightarrow> bool \<Rightarrow> nat \<Rightarrow> error + fval image" where
  "gs_fit c sciimg_v sciivar_v tilts_v msk crm slm tsl skym ir slit =
     (let thismask = thismask_of slm slit;
          inmask = (\<lambda>i j. msk i j = 0 \<and> crm i j = False \<and> thismask i j \<and> skym i j)
      in global_skysub_fit c sciimg_v sciivar_v tilts_v thismask (lcen tsl ! slit)
           (rcen tsl ! slit) inmask (py_invert ir))"

text \<open>
  One pass of the loop of \<open>global_skysub\<close>, on the sky image and the slit selection: the
  fit is written into the slit's pixels, and the slit is masked when numpy's sum of the sky
  image over these pixels is zero. Reading the edge column of a slit the traces do not have
  raises.
\<close>

definition gs_step ::
  "collab \<Rightarrow> fval image \<Rightarrow> fval image \<Rightarrow> fval image \<Rightarrow> mask_t image \<Rightarrow> bool image \<Rightarrow> int image
     \<Rightarrow> tslits \<Rightarrow> bool image \<Rightarrow> bool \<Rightarrow> nat \<Rightarrow> fval image \<times> bool list
     \<Rightarrow> error + fval image \<times> bool list" where
  "gs_step c sciimg_v sciivar_v tilts_v msk crm slm tsl skym ir slit acc =
     (if slit < length (lcen tsl) \<and> slit < length (rcen tsl)
      then (case gs_fit c sciimg_v sciivar_v tilts_v msk crm slm tsl skym ir slit of
              Inl e \<Rightarrow> Inl e
            | Inr fit \<Rightarrow>
               (let gsky = assign_where (thismask_of slm slit) fit (fst acc)
                in Inr (gsky,
                        if np_sum c (select (det_shape c) (thismask_of slm slit) gsky) = Fin 0
                        then (snd acc)[slit := True] else snd acc)))
      else Inl (IndexError ''tslits_dict''))"

fun gs_loop ::
  "collab \<Rightarrow> fval image \<Rightarrow> fval image \<Rightarrow> fval image \<Rightarrow> mask_t image \<Rightarrow> bool image \<Rightarrow> int image
     \<Rightarrow> tslits \<Rightarrow> bool image \<Rightarrow> bool \<Rightarrow> nat list \<Rightarrow> fval image \<times> bool list
     \<Rightarrow> error + fval image \<times> bool list" where
  "gs_loop c sciimg_v sciivar_v tilts_v msk crm slm tsl skym ir [] acc = Inr acc"
| "gs_loop c sciimg_v sciivar_v tilts_v msk crm slm tsl skym ir (slit # rest) acc =
     (case gs_step c sciimg_v sciivar_v tilts_v msk crm slm tsl skym ir slit acc of
        Inl e \<Rightarrow> Inl e
      | Inr acc' \<Rightarrow> gs_loop c sciimg_v sciivar_v tilts_v msk crm slm tsl skym ir rest acc')"

text \<open>
  \<open>global_skysub(self, tslits_dict, tilts, use_skymask=True, update_crmask=True,
  maskslits=None)\<close>, without the display, on an object that \<open>proc\<close> has filled: what numpy
  does with images that are still \<open>None\<close> is outside the model.
\<close>

definition global_skysub ::
  "collab \<Rightarrow> sci \<Rightarrow> tslits \<Rightarrow> fval image \<Rightarrow> bool \<Rightarrow> bool \<Rightarrow> bool list option \<Rightarrow> error + sci" where
  "global_skysub c self0 tslits_a tilts_a use_skymask update_crmask maskslits_a =
     (case (sciimg self0, sciivar self0, crmask self0) of
        (Some sciimg_v, Some sciivar_v, Some crm) \<Rightarrow>
         (case get_goodslits (self0\<lparr> tslits_dict := Some tslits_a, tilts := Some tilts_a \<rparr>)
                 maskslits_a of
            Inl e \<Rightarrow> Inl e
          | Inr (ms, self1) \<Rightarrow>
             (case (case slitmask self1 of
                      None \<Rightarrow> slitmask_svc c (Some tslits_a)
                    | Some sm \<Rightarrow> Inr sm) of
                Inl e \<Rightarrow> Inl e
              | Inr slm \<Rightarrow>
                 (let self2 = self1\<lparr> slitmask := Some slm \<rparr>
                  in case (case mask_v self2 of
                             None \<Rightarrow> build_mask c self2 sciimg_v sciivar_v crm 1 (Some slm)
                           | Some m \<Rightarrow> Inr m) of
                       Inl e \<Rightarrow> Inl e
                     | Inr msk \<Rightarrow>
                        (let skym = (case skymask self2 of
                                       None \<Rightarrow> (\<lambda>i j. True)
                                     | Some sk \<Rightarrow> if use_skymask then sk else (\<lambda>i j. True))
                         in case gs_loop c sciimg_v sciivar_v tilts_a msk crm slm tslits_a skym
                                   (ir_redux self2) (gdslits_of ms) ((\<lambda>i j. Fin 0), ms) of
                              Inl e \<Rightarrow> Inl e
                            | Inr (gsky, ms') \<Rightarrow>
                               (let self3 = self2\<lparr> mask_v := Some msk, global_sky := Some gsky,
                                                   maskslits := Some ms' \<rparr>
                                in if update_crmask
                                   then (let crm' = build_crmask c (img_sub c sciimg_v gsky) sciivar_v
                                         in case build_mask c self3 sciimg_v sciivar_v crm' 1
                                                   (Some slm) of
                                              Inl e \<Rightarrow> Inl e
                                            | Inr msk' \<Rightarrow>
                                               Inr (self3\<lparr> crmask := Some crm',
                                                          mask_v := Some msk',
                                                          steps := steps self3 @ [''global_skysub''] \<rparr>))
                                   else Inr (self3\<lparr> steps := steps self3 @ [''global_skysub''] \<rparr>))))))
      | _ \<Rightarrow> Inl (OutsideModel ''global_skysub before proc''))"

text \<open>
  One pass of the loop of \<open>local_skysub_extract\<close>, on the sky model, the object model, the
  inverse-variance model and the extraction mask: a slit with no object is left alone.
\<close>

definition lse_step ::
  "collab \<Rightarrow> fval image \<Rightarrow> fval image \<Rightarrow> fval image \<Rightarrow> fval image \<Rightarrow> fval image \<Rightarrow> fval image
     \<Rightarrow> mask_t image \<Rightarrow> bool image \<Rightarrow> int image \<Rightarrow> tslits \<Rightarrow> specobj list \<Rightarrow> nat \<Rightarrow> lse_result
     \<Rightarrow> error + lse_result" where
  "lse_step c sciimg_v sciivar_v tilts_v waveimg_v gsky rn2 msk crm slm tsl sobjs_v slit acc =
     (let thisobj = filter (\<lambda>ob. slitid ob = slit) sobjs_v
      in if thisobj \<noteq> []
         then (let thismask = thismask_of slm slit;
                   inmask = (\<lambda>i j. msk i j = 0 \<and> crm i j = False \<and> thismask i j)
               in if slit < length (lcen tsl) \<and> slit < length (rcen tsl)
                  then (case local_skysub_extract_fit c sciimg_v sciivar_v tilts_v waveimg_v gsky
                               rn2 thismask (lcen tsl ! slit) (rcen tsl ! slit) thisobj inmask of
                          Inl e \<Rightarrow> Inl e
                        | Inr r \<Rightarrow>
                           Inr \<lparr> lse_skymodel = assign_where thismask (lse_skymodel r)
                                                 (lse_skymodel acc),
                                 lse_objmodel = assign_where thismask (lse_objmodel r)
                                                 (lse_objmodel acc),
                                 lse_ivarmodel = assign_where thismask (lse_ivarmodel r)
                                                  (lse_ivarmodel acc),
                                 lse_extractmask = assign_where thismask (lse_extractmask r)
                                                    (lse_extractmask acc) \<rparr>)
                  else Inl (IndexError ''tslits_dict''))
         else Inr acc)"

fun lse_loop ::
  "collab \<Rightarrow> fval image \<Rightarrow> fval image \<Rightarrow> fval image \<Rightarrow> fval image \<Rightarrow> fval image \<Rightarrow> fval image
     \<Rightarrow> mask_t image \<Rightarrow> bool image \<Rightarrow> int image \<Rightarrow> tslits \<Rightarrow> specobj list \<Rightarrow> nat list
     \<Rightarrow> lse_result \<Rightarrow> error + lse_result" where
  "lse_loop c sciimg_v sciivar_v tilts_v waveimg_v gsky rn2 msk crm slm tsl sobjs_v [] acc =
     Inr acc"
| "lse_loop c sciimg_v sciivar_v tilts_v waveimg_v gsky rn2 msk crm slm tsl sobjs_v (slit # rest)
     acc =
     (case lse_step c sciimg_v sciivar_v tilts_v waveimg_v gsky rn2 msk crm slm tsl sobjs_v slit
             acc of
        Inl e \<Rightarrow> Inl e
      | Inr acc' \<Rightarrow>
          lse_loop c sciimg_v sciivar_v tilts_v waveimg_v gsky rn2 msk crm slm tsl sobjs_v rest
            acc')"

text \<open>
  \<open>outmask[iextract] += np.uint64(2**8)\<close> with \<open>iextract = (mask == 0) & (extractmask ==
  False)\<close>: the addition is done in the mask's own 16 bits.
\<close>

definition add_extract_bit :: "mask_t image \<Rightarrow> bool image \<Rightarrow> mask_t image \<Rightarrow> mask_t image" where
  "add_extract_bit msk extractmask_v outmask_v =
     (\<lambda>i j. if msk i j = 0 \<and> extractmask_v i j = False
            then outmask_v i j + 2 ^ 8 else outmask_v i j)"

text \<open>
  \<open>local_skysub_extract(self, sobjs, waveimg, maskslits=None)\<close>, without the display. The
  prerequisites are checked by \<open>_chk_objs\<close> after the slit selection and the slit mask have
  been worked out. What numpy does when \<open>mask\<close> or \<open>crmask\<close> is still \<open>None\<close> behind that
  check is outside the model.
\<close>

definition local_skysub_extract ::
  "collab \<Rightarrow> sci \<Rightarrow> specobj list \<Rightarrow> fval image option \<Rightarrow> bool list option \<Rightarrow> error + sci" where
  "local_skysub_extract c self0 sobjs_a waveimg_a maskslits_a =
     (case get_goodslits (self0\<lparr> waveimg := waveimg_a \<rparr>) maskslits_a of
        Inl e \<Rightarrow> Inl e
      | Inr (ms, self1) \<Rightarrow>
         (case (case slitmask self1 of
                  None \<Rightarrow> slitmask_svc c (tslits_dict self1)
                | Some sm \<Rightarrow> Inr sm) of
            Inl e \<Rightarrow> Inl e
          | Inr slm \<Rightarrow>
             (let self2 = self1\<lparr> slitmask := Some slm \<rparr>
              in case chk_objs self2 [''sciimg'', ''sciivar'', ''rn2img'', ''global_sky'', ''tilts'',
                                       ''waveimg'', ''tslits_dict''] of
                   Inl e \<Rightarrow> Inl e
                 | Inr (False, _) \<Rightarrow>
                     Inl (PypeItError
                       ''All quantities necessary to run local_skysub_extract() have not been set.'')
                 | Inr (True, _) \<Rightarrow>
                    (case (sciimg self2, sciivar self2, rn2img self2, global_sky self2, tilts self2,
                           waveimg self2, tslits_dict self2, mask_v self2, crmask self2) of
                       (Some sciimg_v, Some sciivar_v, Some rn2, Some gsky, Some tilts_v,
                        Some waveimg_v, Some tsl, Some msk, Some crm) \<Rightarrow>
                         (case lse_loop c sciimg_v sciivar_v tilts_v waveimg_v gsky rn2 msk crm slm
                                 tsl sobjs_a (gdslits_of ms)
                                 \<lparr> lse_skymodel = gsky, lse_objmodel = (\<lambda>i j. Fin 0),
                                   lse_ivarmodel = sciivar_v,
                                   lse_extractmask = (\<lambda>i j. msk i j = 0) \<rparr> of
                            Inl e \<Rightarrow> Inl e
                          | Inr r \<Rightarrow>
                             Inr (self2\<lparr> outmask := Some (add_extract_bit msk (lse_extractmask r) msk),
                                        extractmask := Some (lse_extractmask r),
                                        objmodel := Some (lse_objmodel r),
                                        skymodel := Some (lse_skymodel r),
                                        ivarmodel := Some (lse_ivarmodel r),
                                        sobjs := Some sobjs_a,
                                        steps := steps self2 @ [''local_skysub_extract''] \<rparr>))
                     | _ \<Rightarrow> Inl (OutsideModel ''local_skysub_extract without mask or crmask'')))))"

section \<open>Reading a result\<close>

text \<open>One pixel of an image attribute of the object a method returns, if it returns one.\<close>

definition outmask_at :: "error + sci \<Rightarrow> nat \<Rightarrow> nat \<Rightarrow> mask_t option" where
  "outmask_at r i j = (case r of Inl e \<Rightarrow> None | Inr s \<Rightarrow> map_option (\<lambda>m. m i j) (outmask s))"

definition extractmask_at :: "error + sci \<Rightarrow> nat \<Rightarrow> nat \<Rightarrow> bool option" where
  "extractmask_at r i j =
     (case r of Inl e \<Rightarrow> None | Inr s \<Rightarrow> map_option (\<lambda>m. m i j) (extractmask s))"

definition mask_at :: "error + sci \<Rightarrow> nat \<Rightarrow> nat \<Rightarrow> mask_t option" where
  "mask_at r i j = (case r of Inl e \<Rightarrow> None | Inr s \<Rightarrow> map_option (\<lambda>m. m i j) (mask_v s))"

definition sciimg_at :: "error + sci \<Rightarrow> nat \<Rightarrow> nat \<Rightarrow> fval option" where
  "sciimg_at r i j = (case r of Inl e \<Rightarrow> None | Inr s \<Rightarrow> map_option (\<lambda>m. m i j) (sciimg s))"

section \<open>Concrete inputs\<close>

text \<open>
  A detector of one row and three columns with the saturation and minimum counts of the
  DEIMOS detectors, three slits of one column each, and collaborators that return fixed
  images: a file named \<open>off\<close> holds the constant \<open>b\<close>, any other file the constant \<open>a\<close>;
  no cosmic ray is found; the global sky fit of the middle slit is zero and that of the
  others one; the extraction marks every pixel invalid.
\<close>

text \<open>
  In the examples below every result that is rounded is a double already and every sum is
  exact, so their rounding is the identity and their sums are the plain sum.
\<close>

definition ex_sum :: "fval list \<Rightarrow> fval" where
  "ex_sum xs = foldl (fadd (\<lambda>x. x)) (Fin 0) xs"

definition ex_calc_ivar :: "fval \<Rightarrow> fval" where
  "ex_calc_ivar v =
     (case v of Fin x \<Rightarrow> if 0 < x then Fin (1 / x) else Fin 0 | NaN \<Rightarrow> NaN | _ \<Rightarrow> Fin 0)"

definition ex_frame :: "real \<Rightarrow> frame" where
  "ex_frame v =
     \<lparr> fr_sciimg = (\<lambda>i j. Fin v), fr_rawvarframe = (\<lambda>i j. Fin 1), fr_rn2img = (\<lambda>i j. Fin 1) \<rparr>"

definition ex_collab :: "real \<Rightarrow> real \<Rightarrow> collab" where
  "ex_collab a b =
     \<lparr> fl = (\<lambda>x. x), np_sum = ex_sum, np_sum0 = ex_sum,
       det_shape = (1, 3), saturation = 65535, mincounts = - 10000000000,
       slitmask_svc = (\<lambda>t. Inr (\<lambda>i j. int j)),
       process_file = (\<lambda>f bi pf il bp. if f = ''off'' then Inr (ex_frame b) else Inr (ex_frame a)),
       calc_ivar = ex_calc_ivar,
       lacosmic = (\<lambda>img var i j. False),
       sigclip = (\<lambda>s n d m. m),
       global_skysub_fit = (\<lambda>img iv ti thismask l r inmask pos.
                              Inr (\<lambda>i j. if thismask 0 1 then Fin 0 else Fin 1)),
       local_skysub_extract_fit = (\<lambda>img iv ti wv gs rn thismask l r obs inmask.
           Inr \<lparr> lse_skymodel = (\<lambda>i j. Fin 7), lse_objmodel = (\<lambda>i j. Fin 1),
                 lse_ivarmodel = (\<lambda>i j. Fin 2), lse_extractmask = (\<lambda>i j. False) \<rparr>) \<rparr>"

text \<open>A collaborator set whose files cannot be read.\<close>

definition ex_unreadable :: collab where
  "ex_unreadable = (ex_collab 5 3)\<lparr> process_file := (\<lambda>f bi pf il bp. Inl (ServiceError f)) \<rparr>"

definition ex_bpm :: "int image option" where
  "ex_bpm = Some (\<lambda>i j. 0)"

text \<open>
  An object after \<open>proc\<close>: the pixel of column 0 is saturated and carries the SATURATION
  bit, the others are clear.
\<close>

definition ex_reduced :: sci where
  "ex_reduced = (init [''on''] [])
     \<lparr> bpm := Some (\<lambda>i j. 0),
       sciimg := Some (\<lambda>i j. if j = 0 then Fin 70000 else Fin 5),
       sciivar := Some (\<lambda>i j. Fin 1),
       rn2img := Some (\<lambda>i j. Fin 1),
       mask_v := Some (\<lambda>i j. if j = 0 then 4 else 0),
       crmask := Some (\<lambda>i j. False) \<rparr>"

definition ex_tslits :: tslits where
  "ex_tslits = \<lparr> lcen = [[0], [1], [2]], rcen = [[1], [2], [3]] \<rparr>"

definition ex_tilts :: "fval image" where
  "ex_tilts = (\<lambda>i j. Fin 0)"

text \<open>The same object after a global sky subtraction, and objects on the slits 0 and 2.\<close>

definition ex_skysubbed :: sci where
  "ex_skysubbed = ex_reduced
     \<lparr> tslits_dict := Some ex_tslits,
       tilts := Some ex_tilts,
       maskslits := Some [False, False, False],
       slitmask := Some (\<lambda>i j. int j),
       global_sky := Some (\<lambda>i j. Fin 1) \<rparr>"

definition ex_sobjs :: "specobj list" where
  "ex_sobjs = [\<lparr> slitid = 0, objid = 1 \<rparr>, \<lparr> slitid = 2, objid = 2 \<rparr>]"

definition ex_waveimg :: "fval image" where
  "ex_waveimg = (\<lambda>i j. Fin 5000)"

definition crmask_at :: "error + sci \<Rightarrow> nat \<Rightarrow> nat \<Rightarrow> bool option" where
  "crmask_at r i j = (case r of Inl e \<Rightarrow> None | Inr s \<Rightarrow> map_option (\<lambda>m. m i j) (crmask s))"

text \<open>
  A cosmic-ray detector that flags column 0 of every frame and column 1 of the frames of
  value 5 only.
\<close>

definition ex_cosmic :: collab where
  "ex_cosmic = (ex_collab 5 3)
     \<lparr> lacosmic := (\<lambda>img var i j. j = 0 \<or> (j = 1 \<and> img 0 0 = Fin 5)) \<rparr>"

text \<open>
  The local variable \<open>weights_sum\<close> of the combine in \<open>proc\<close>, for a stack that has been
  read: the sum over the frames of the weights actually used at each pixel.
\<close>

definition weights_sum_of ::
  "collab \<Rightarrow> sci \<Rightarrow> stacks \<Rightarrow> real list \<Rightarrow> bool \<Rightarrow> real \<Rightarrow> int \<Rightarrow> fval image option" where
  "weights_sum_of c self st weights sigma_clip sigrej maxiters =
     map_option (\<lambda>outmask_stack. weights_sum_of_stack c (weights_stack_of weights outmask_stack))
       (outmask_stack_of c self st sigma_clip sigrej maxiters)"

definition weights_sum_at ::
  "collab \<Rightarrow> sci \<Rightarrow> stacks \<Rightarrow> real list \<Rightarrow> bool \<Rightarrow> real \<Rightarrow> int \<Rightarrow> nat \<Rightarrow> nat \<Rightarrow> fval option" where
  "weights_sum_at c self st weights sigma_clip sigrej maxiters i j =
     map_option (\<lambda>ws. ws i j) (weights_sum_of c self st weights sigma_clip sigrej maxiters)"

definition combined_sciimg_at :: "error + combined \<Rightarrow> nat \<Rightarrow> nat \<Rightarrow> fval option" where
  "combined_sciimg_at r i j = (case r of Inl e \<Rightarrow> None | Inr cb \<Rightarrow> Some (cb_sciimg cb i j))"

text \<open>
  Difference imaging with two science frames and one background frame, and the stacks
  \<open>read_stack\<close> delivers for them when the science frames hold 5 and the background 3.
\<close>

definition ex_ir :: sci where
  "ex_ir = (init [''on1'', ''on2''] [''off''])\<lparr> bpm := ex_bpm \<rparr>"

definition ex_stacks :: stacks where
  "ex_stacks =
     \<lparr> sciimg_stack = [(\<lambda>i j. Fin 5), (\<lambda>i j. Fin 5), (\<lambda>i j. Fin 3)],
       sciivar_stack = [(\<lambda>i j. Fin 1), (\<lambda>i j. Fin 1), (\<lambda>i j. Fin 1)],
       rn2img_stack = [(\<lambda>i j. Fin 1), (\<lambda>i j. Fin 1), (\<lambda>i j. Fin 1)],
       crmask_stack = [(\<lambda>i j. False), (\<lambda>i j. False), (\<lambda>i j. False)],
       mask_stack = [(\<lambda>i j. 0), (\<lambda>i j. 0), (\<lambda>i j. 0)] \<rparr>"

text \<open>
  Two science frames without background, whose bad-pixel mask flags column 0, and the
  stacks \<open>read_stack\<close> delivers for them.
\<close>

definition ex_nonir :: sci where
  "ex_nonir = (init [''on1'', ''on2''] [])\<lparr> bpm := Some (\<lambda>i j. if j = 0 then 1 else 0) \<rparr>"

definition ex_stacks_bad :: stacks where
  "ex_stacks_bad =
     \<lparr> sciimg_stack = [(\<lambda>i j. Fin 5), (\<lambda>i j. Fin 5)],
       sciivar_stack = [(\<lambda>i j. Fin 1), (\<lambda>i j. Fin 1)],
       rn2img_stack = [(\<lambda>i j. Fin 1), (\<lambda>i j. Fin 1)],
       crmask_stack = [(\<lambda>i j. False), (\<lambda>i j. False)],
       mask_stack = [(\<lambda>i j. if j = 0 then 1 else 0), (\<lambda>i j. if j = 0 then 1 else 0)] \<rparr>"


definition skymodel_at :: "error + sci \<Rightarrow> nat \<Rightarrow> nat \<Rightarrow> fval option" where
  "skymodel_at r i j = (case r of Inl e \<Rightarrow> None | Inr s \<Rightarrow> map_option (\<lambda>m. m i j) (skymodel s))"

text \<open>
  Objects on all three slits, and the global sky subtraction of the object after \<open>proc\<close>
  followed by the extraction.
\<close>

definition ex_sobjs_all :: "specobj list" where
  "ex_sobjs_all = [\<lparr> slitid = 0, objid = 1 \<rparr>, \<lparr> slitid = 1, objid = 2 \<rparr>,
                   \<lparr> slitid = 2, objid = 3 \<rparr>]"

definition ex_pipeline :: "error + sci" where
  "ex_pipeline =
     (case global_skysub (ex_collab 5 3) ex_reduced ex_tslits ex_tilts True True None of
        Inl e \<Rightarrow> Inl e
      | Inr s1 \<Rightarrow> local_skysub_extract (ex_collab 5 3) s1 ex_sobjs_all (Some ex_waveimg) None)"

section \<open>Properties of the mask bits\<close>

lemma flagged_turn_on: "flagged (turn_on v f) g \<longleftrightarrow> flagged v g \<or> f = g"
  by (cases f; cases g; simp add: flagged_def turn_on_def bit_or_iff bit_push_bit_iff bit_1_iff)

lemma flagged_turn_on_where:
  "flagged (turn_on_where indx f msk i j) g \<longleftrightarrow> flagged (msk i j) g \<or> (indx i j \<and> f = g)"
  by (simp add: turn_on_where_def flagged_turn_on)

lemma flagged_zero: "\<not> flagged 0 g"
  by (simp add: flagged_def)

section \<open>Properties of \<open>proc\<close>\<close>

text \<open>
  C7: \<open>proc\<close> fails with the configuration error whenever sigma clipping is requested on an
  object that does difference imaging, which is what a non-empty list of background files
  makes it. The error is the result whatever the collaborators are, also those whose
  files cannot be read: no frame is read before it.
\<close>

theorem proc_sigma_clip_difference_imaging_error:
  "(ir_redux self \<longrightarrow>
      proc c self bias_a pixel_flat_a bpm_a illum_flat_a True sigrej_a maxiters =
        Inl (PypeItError
          ''You cannot sigma clip with difference imaging as this will reject objects''))
   \<and> (bg_files \<noteq> [] \<longrightarrow> ir_redux (init files bg_files))"
  by (simp add: proc_def init_def)

theorem proc_sigma_clip_difference_imaging_error_witness:
  "ir_redux (init [''on''] [''off''])
   \<and> [''off''] \<noteq> ([] :: string list)
   \<and> proc ex_unreadable (init [''on''] [''off'']) None None ex_bpm None True None 5 =
        Inl (PypeItError
          ''You cannot sigma clip with difference imaging as this will reject objects'')"
  using proc_sigma_clip_difference_imaging_error
          [of "init [''on''] [''off'']" ex_unreadable None None ex_bpm None None 5 "[''off'']"
              "[''on'']"]
  by simp

text \<open>
  C10: with exactly two science frames, no background frame and sigma clipping, \<open>proc\<close>
  never returns: when the two frames are read without error it raises the unbound-variable
  error for \<open>outmask_stack\<close>, and otherwise the error of the read.
\<close>

theorem proc_two_frames_sigma_clip_unbound:
  "(case read_stack c ((init [f1, f2] [])\<lparr> bpm := bpm_a, bias := bias_a,
                        pixel_flat := pixel_flat_a, illum_flat := illum_flat_a \<rparr>)
           [f1, f2] bias_a pixel_flat_a bpm_a illum_flat_a True of
      Inl e \<Rightarrow>
        proc c (init [f1, f2] []) bias_a pixel_flat_a bpm_a illum_flat_a True sigrej_a maxiters
          = Inl e
    | Inr st \<Rightarrow>
        proc c (init [f1, f2] []) bias_a pixel_flat_a bpm_a illum_flat_a True sigrej_a maxiters
          = Inl (UnboundLocalError ''outmask_stack''))"
  by (simp add: proc_def init_def combine_def outmask_stack_of_def split: sum.splits)

text \<open>With two frames that are read without error.\<close>

theorem proc_two_frames_sigma_clip_unbound_witness:
  "proc (ex_collab 5 3) (init [''on1'', ''on2''] []) None None ex_bpm None True None 5
     = Inl (UnboundLocalError ''outmask_stack'')"
  using proc_two_frames_sigma_clip_unbound
          [where c = "ex_collab 5 3" and ?f1.0 = "''on1''" and ?f2.0 = "''on2''"
             and bpm_a = ex_bpm and bias_a = None and pixel_flat_a = None
             and illum_flat_a = None and sigrej_a = None and maxiters = 5]
  by (simp add: read_stack_def ex_collab_def init_def ex_bpm_def build_mask_def Let_def)

section \<open>Properties of \<open>local_skysub_extract\<close>\<close>

text \<open>
  C2: on a freshly constructed object, \<open>local_skysub_extract\<close> with the default
  \<open>maskslits=None\<close> does not reach the check of its prerequisites: working out the slit
  selection subscripts \<open>tslits_dict\<close>, which is still \<open>None\<close>, and the call ends in Python's
  \<open>TypeError\<close>.
\<close>

theorem local_skysub_extract_fresh_type_error:
  "local_skysub_extract c (init files bg_files) sobjs_a waveimg_a None =
     Inl (TypeError ''NoneType object is not subscriptable'')"
  by (simp add: local_skysub_extract_def get_goodslits_def init_def)

text \<open>
  With a slit selection passed in, a fresh object does reach the check of the
  prerequisites, which then fails with the error of \<open>msgs.error\<close>.
\<close>

lemma local_skysub_extract_fresh_with_maskslits:
  assumes "slitmask_svc c None = Inr slm"
  shows "local_skysub_extract c (init files bg_files) sobjs_a waveimg_a (Some ms) =
           Inl (PypeItError
             ''All quantities necessary to run local_skysub_extract() have not been set.'')"
  using assms
  by (simp add: local_skysub_extract_def get_goodslits_def init_def attr_is_none_def
      Option.is_none_def)

lemma get_goodslits_result:
  "get_goodslits self maskslits_a = Inr (ms, self1) \<Longrightarrow> self1 = self\<lparr> maskslits := Some ms \<rparr>"
  by (auto simp: get_goodslits_def Let_def split: option.splits)

lemma local_skysub_extract_returns:
  assumes "local_skysub_extract c self sobjs_a waveimg_a maskslits_a = Inr s2"
  shows "\<exists>ms self1 slm sciimg_v sciivar_v rn2 gsky tilts_v waveimg_v tsl msk crm r.
           get_goodslits (self\<lparr> waveimg := waveimg_a \<rparr>) maskslits_a = Inr (ms, self1)
         \<and> (case slitmask self1 of
               None \<Rightarrow> slitmask_svc c (tslits_dict self1)
             | Some sm \<Rightarrow> Inr sm) = Inr slm
         \<and> sciimg self1 = Some sciimg_v \<and> sciivar self1 = Some sciivar_v
         \<and> rn2img self1 = Some rn2 \<and> global_sky self1 = Some gsky
         \<and> tilts self1 = Some tilts_v \<and> waveimg self1 = Some waveimg_v
         \<and> tslits_dict self1 = Some tsl \<and> mask_v self1 = Some msk \<and> crmask self1 = Some crm
         \<and> lse_loop c sciimg_v sciivar_v tilts_v waveimg_v gsky rn2 msk crm slm tsl sobjs_a
              (gdslits_of ms)
              \<lparr> lse_skymodel = gsky, lse_objmodel = (\<lambda>i j. Fin 0), lse_ivarmodel = sciivar_v,
                lse_extractmask = (\<lambda>i j. msk i j = 0) \<rparr> = Inr r
         \<and> s2 = self1\<lparr> slitmask := Some slm,
                       outmask := Some (add_extract_bit msk (lse_extractmask r) msk),
                       extractmask := Some (lse_extractmask r),
                       objmodel := Some (lse_objmodel r),
                       skymodel := Some (lse_skymodel r),
                       ivarmodel := Some (lse_ivarmodel r),
                       sobjs := Some sobjs_a,
                       steps := steps self1 @ [''local_skysub_extract''] \<rparr>"
  using assms
  unfolding local_skysub_extract_def Let_def
  by (auto split: sum.splits prod.splits bool.splits option.splits)

lemma gdslits_of_three: "gdslits_of [False, False, False] = [0, 1, 2]"
  by (simp add: gdslits_of_def upt_rec)

lemma add_extract_bit_px:
  "add_extract_bit msk em msk i j = (if msk i j = 0 \<and> \<not> em i j then 256 else msk i j)"
  by (simp add: add_extract_bit_def)

lemma ex_local_skysub_extract_returns:
  "\<exists>s2. local_skysub_extract (ex_collab 5 3) ex_skysubbed ex_sobjs (Some ex_waveimg) None
          = Inr s2"
  by (simp add: local_skysub_extract_def get_goodslits_def ex_skysubbed_def ex_reduced_def
      init_def ex_collab_def ex_sobjs_def ex_tslits_def attr_is_none_def Option.is_none_def
      gdslits_of_three lse_step_def thismask_of_def Let_def)

text \<open>
  C1, as stated, fails: the pixel of column 0 enters with the SATURATION bit (value 4) and
  is marked invalid by the extraction, and leaves with the value 4, without the EXTRACT
  bit.
\<close>

theorem local_skysub_extract_both_bits_counterexample:
  "mask_v ex_skysubbed \<noteq> None
   \<and> flagged (the (mask_v ex_skysubbed) 0 0) SATURATION
   \<and> extractmask_at (local_skysub_extract (ex_collab 5 3) ex_skysubbed ex_sobjs
                       (Some ex_waveimg) None) 0 0 = Some False
   \<and> outmask_at (local_skysub_extract (ex_collab 5 3) ex_skysubbed ex_sobjs
                   (Some ex_waveimg) None) 0 0 = Some 4
   \<and> \<not> flagged 4 EXTRACT"
  by (simp add: outmask_at_def extractmask_at_def local_skysub_extract_def get_goodslits_def
      ex_skysubbed_def ex_reduced_def init_def ex_collab_def ex_sobjs_def ex_tslits_def
      attr_is_none_def Option.is_none_def gdslits_of_three lse_step_def thismask_of_def
      assign_where_def add_extract_bit_def flagged_def Let_def)

text \<open>
  C1, amended: whenever \<open>local_skysub_extract\<close> returns, the output mask keeps every bit of
  the composite mask the pixel entered with; a pixel that entered with a nonzero mask
  leaves with exactly that mask; and the EXTRACT bit is set exactly at the pixels that
  entered with a clear mask and were marked invalid by the extraction (or entered with
  that bit).
\<close>

theorem local_skysub_extract_outmask_extends:
  assumes "local_skysub_extract c self sobjs_a waveimg_a maskslits_a = Inr s2"
  shows "\<exists>msk em om. mask_v self = Some msk \<and> extractmask s2 = Some em \<and> outmask s2 = Some om
           \<and> (\<forall>i j. om i j AND msk i j = msk i j
                    \<and> (msk i j \<noteq> 0 \<longrightarrow> om i j = msk i j)
                    \<and> (flagged (om i j) EXTRACT
                         \<longleftrightarrow> (msk i j = 0 \<and> \<not> em i j) \<or> flagged (msk i j) EXTRACT))"
proof -
  from local_skysub_extract_returns [OF assms] obtain ms self1 slm msk and r :: lse_result where
    g: "get_goodslits (self\<lparr> waveimg := waveimg_a \<rparr>) maskslits_a = Inr (ms, self1)"
    and m: "mask_v self1 = Some msk"
    and eq: "s2 = self1\<lparr> slitmask := Some slm,
                       outmask := Some (add_extract_bit msk (lse_extractmask r) msk),
                       extractmask := Some (lse_extractmask r),
                       objmodel := Some (lse_objmodel r),
                       skymodel := Some (lse_skymodel r),
                       ivarmodel := Some (lse_ivarmodel r),
                       sobjs := Some sobjs_a,
                       steps := steps self1 @ [''local_skysub_extract''] \<rparr>"
    by blast
  define em where "em = lse_extractmask r"
  define om where "om = add_extract_bit msk em msk"
  from eq have s2: "extractmask s2 = Some em" "outmask s2 = Some om"
    by (simp_all add: em_def om_def)
  from get_goodslits_result [OF g] m have m0: "mask_v self = Some msk"
    by simp
  have px: "\<forall>i j. om i j AND msk i j = msk i j
                 \<and> (msk i j \<noteq> 0 \<longrightarrow> om i j = msk i j)
                 \<and> (flagged (om i j) EXTRACT
                      \<longleftrightarrow> (msk i j = 0 \<and> \<not> em i j) \<or> flagged (msk i j) EXTRACT)"
    by (auto simp: om_def add_extract_bit_px flagged_def)
  show ?thesis
    apply (rule exI [of _ msk])
    apply (rule exI [of _ em])
    apply (rule exI [of _ om])
    using m0 s2 px apply (intro conjI)
       apply assumption+
    done
qed

theorem local_skysub_extract_outmask_extends_witness:
  "\<exists>s2 msk em om.
      local_skysub_extract (ex_collab 5 3) ex_skysubbed ex_sobjs (Some ex_waveimg) None = Inr s2
      \<and> mask_v ex_skysubbed = Some msk \<and> extractmask s2 = Some em \<and> outmask s2 = Some om
      \<and> (\<forall>i j. om i j AND msk i j = msk i j
               \<and> (msk i j \<noteq> 0 \<longrightarrow> om i j = msk i j)
               \<and> (flagged (om i j) EXTRACT
                    \<longleftrightarrow> (msk i j = 0 \<and> \<not> em i j) \<or> flagged (msk i j) EXTRACT))"
proof -
  from ex_local_skysub_extract_returns obtain s2 where
    r: "local_skysub_extract (ex_collab 5 3) ex_skysubbed ex_sobjs (Some ex_waveimg) None
          = Inr s2" ..
  from local_skysub_extract_outmask_extends [OF r] obtain msk em om where
    "mask_v ex_skysubbed = Some msk \<and> extractmask s2 = Some em \<and> outmask s2 = Some om
      \<and> (\<forall>i j. om i j AND msk i j = msk i j
               \<and> (msk i j \<noteq> 0 \<longrightarrow> om i j = msk i j)
               \<and> (flagged (om i j) EXTRACT
                    \<longleftrightarrow> (msk i j = 0 \<and> \<not> em i j) \<or> flagged (msk i j) EXTRACT))"
    by (elim exE)
  with r show ?thesis
    apply -
    apply (rule exI [of _ s2])
    apply (rule exI [of _ msk])
    apply (rule exI [of _ em])
    apply (rule exI [of _ om])
    apply (rule conjI)
     apply assumption+
    done
qed

section \<open>The bits of the mask and the combined cosmic-ray mask\<close>

lemma build_mask_bits:
  assumes "build_mask c self a v cr mc sm = Inr m"
  shows "\<exists>b. bpm self = Some b
     \<and> (flagged (m i j) BPM \<longleftrightarrow> b i j \<noteq> 0)
     \<and> (flagged (m i j) CR \<longleftrightarrow> cr i j)
     \<and> (flagged (m i j) SATURATION \<longleftrightarrow> fge (a i j) (saturation c))
     \<and> (flagged (m i j) MINCOUNTS \<longleftrightarrow> truthy mc \<and> fle (a i j) (mincounts c))
     \<and> (flagged (m i j) OFFSLITS \<longleftrightarrow> sm \<noteq> None \<and> (\<exists>s. slitmask self = Some s \<and> s i j = - 1))
     \<and> (flagged (m i j) IS_NAN \<longleftrightarrow> \<not> isfinite (a i j))
     \<and> (flagged (m i j) IVAR0 \<longleftrightarrow> \<not> fgt (v i j) 0)
     \<and> (flagged (m i j) IVAR_NAN \<longleftrightarrow> \<not> isfinite (v i j))
     \<and> \<not> flagged (m i j) EXTRACT"
  using assms
  by (auto simp: build_mask_def Let_def flagged_turn_on_where flagged_zero
           split: option.splits if_splits)

lemma truthy_py_invert: "truthy (py_invert b)"
  by (simp add: truthy_def py_invert_def)

lemma read_loop_lengths:
  "read_loop c self bi pf bp il cosmics files st = Inr st' \<Longrightarrow>
     length (sciimg_stack st') = length (sciimg_stack st) + length files
   \<and> length (sciivar_stack st') = length (sciivar_stack st) + length files
   \<and> length (rn2img_stack st') = length (rn2img_stack st) + length files
   \<and> length (crmask_stack st') = length (crmask_stack st) + length files
   \<and> length (mask_stack st') = length (mask_stack st) + length files"
proof (induction files arbitrary: st)
  case Nil
  then show ?case by simp
next
  case (Cons f fs)
  then show ?case
    by (auto simp: Let_def split: sum.splits)
qed

lemma read_stack_lengths:
  "read_stack c self files bi pf bp il cosmics = Inr st \<Longrightarrow>
     length (sciimg_stack st) = length files
   \<and> length (sciivar_stack st) = length files
   \<and> length (rn2img_stack st) = length files
   \<and> length (crmask_stack st) = length files
   \<and> length (mask_stack st) = length files"
  by (auto simp: read_stack_def dest!: read_loop_lengths split: if_splits)

lemma sum_of_bool_le: "sum_list (map (\<lambda>a. of_bool (a i j)) st) \<le> (length st :: nat)"
  by (induction st) auto

lemma count0_all: "count0 st i j = length st \<longleftrightarrow> (\<forall>a\<in>set st. a i j)"
  unfolding count0_def
proof (induction st)
  case Nil
  then show ?case by simp
next
  case (Cons a st)
  have "sum_list (map (\<lambda>a. of_bool (a i j)) st) \<le> (length st :: nat)"
    by (rule sum_of_bool_le)
  with Cons show ?case by (cases "a i j") auto
qed

lemma combine_returns:
  assumes "combine c self st weights nfiles sigma_clip sigrej maxiters = Inr r"
  shows "cb_crmask r = (\<lambda>i j. count0 (crmask_stack st) i j = nfiles)
       \<and> build_mask c self (cb_sciimg r) (cb_sciivar r) (cb_crmask r) (py_invert (ir_redux self))
            None = Inr (cb_mask r)"
  using assms
  by (auto simp: combine_def Let_def split: option.splits sum.splits)

lemma proc_returns:
  assumes "proc c self bias_a pixel_flat_a bpm_a illum_flat_a sigma_clip sigrej_a maxiters = Inr s'"
  shows "\<exists>st r.
      read_stack c (self\<lparr> bpm := bpm_a, bias := bias_a, pixel_flat := pixel_flat_a,
                          illum_flat := illum_flat_a \<rparr>)
        (if ir_redux self then file_list self @ bg_file_list self else file_list self)
        bias_a pixel_flat_a bpm_a illum_flat_a (\<not> ir_redux self) = Inr st
    \<and> (if 1 < nsci self
        then combine c (self\<lparr> bpm := bpm_a, bias := bias_a, pixel_flat := pixel_flat_a,
                                illum_flat := illum_flat_a \<rparr>) st
               (weights_of c self)
               (length (if ir_redux self then file_list self @ bg_file_list self
                        else file_list self))
               sigma_clip
               (case sigrej_a of None \<Rightarrow> default_sigrej (nsci self) | Some s \<Rightarrow> s) maxiters
        else first_frame st) = Inr r
    \<and> mask_v s' = Some (cb_mask r)
    \<and> sciimg s' = Some (cb_sciimg r)
    \<and> sciivar s' = Some (cb_sciivar r)
    \<and> rn2img s' = Some (cb_rn2img r)
    \<and> crmask s' = Some (if ir_redux self then build_crmask c (cb_sciimg r) (cb_sciivar r)
                         else cb_crmask r)"
  using assms
  by (auto simp: proc_def Let_def weights_of_def split: sum.splits if_splits option.splits)


text \<open>
  C5: whenever \<open>proc\<close> returns for more than one science frame, the cosmic-ray mask it
  combines from the stack is true at a pixel exactly when the pixel is flagged in every
  frame of the stack (so it is false when one frame does not flag it). That mask is the CR
  bit of the composite mask \<open>proc\<close> returns and, without difference imaging, the
  cosmic-ray mask it returns; with difference imaging no frame is searched for cosmic
  rays, and the returned cosmic-ray mask is the one detected afterwards on the difference.
\<close>

theorem proc_combined_crmask_all_frames:
  assumes "proc c self bias_a pixel_flat_a bpm_a illum_flat_a sigma_clip sigrej_a maxiters = Inr s'"
    and "1 < nsci self"
  shows "\<exists>st msk.
      read_stack c (self\<lparr> bpm := bpm_a, bias := bias_a, pixel_flat := pixel_flat_a,
                          illum_flat := illum_flat_a \<rparr>)
        (if ir_redux self then file_list self @ bg_file_list self else file_list self)
        bias_a pixel_flat_a bpm_a illum_flat_a (\<not> ir_redux self) = Inr st
    \<and> length (crmask_stack st)
        = length (if ir_redux self then file_list self @ bg_file_list self else file_list self)
    \<and> mask_v s' = Some msk
    \<and> (\<forall>i j. flagged (msk i j) CR \<longleftrightarrow> (\<forall>cr\<in>set (crmask_stack st). cr i j))
    \<and> (\<not> ir_redux self \<longrightarrow>
         (\<exists>crm. crmask s' = Some crm
                \<and> (\<forall>i j. crm i j \<longleftrightarrow> (\<forall>cr\<in>set (crmask_stack st). cr i j))))"
proof -
  let ?self = "self\<lparr> bpm := bpm_a, bias := bias_a, pixel_flat := pixel_flat_a,
                     illum_flat := illum_flat_a \<rparr>"
  let ?files = "if ir_redux self then file_list self @ bg_file_list self else file_list self"
  from proc_returns [OF assms(1)] assms(2) obtain st and r :: combined where
    rd: "read_stack c ?self ?files bias_a pixel_flat_a bpm_a illum_flat_a (\<not> ir_redux self)
           = Inr st"
    and cb: "combine c ?self st (weights_of c self) (length ?files) sigma_clip
               (case sigrej_a of None \<Rightarrow> default_sigrej (nsci self) | Some s \<Rightarrow> s) maxiters
             = Inr r"
    and m: "mask_v s' = Some (cb_mask r)"
    and cr: "crmask s' = Some (if ir_redux self then build_crmask c (cb_sciimg r) (cb_sciivar r)
                               else cb_crmask r)"
    by (auto split: if_splits)
  from read_stack_lengths [OF rd] have len: "length (crmask_stack st) = length ?files"
    by simp
  have crm: "cb_crmask r = (\<lambda>i j. count0 (crmask_stack st) i j = length ?files)"
    by (rule combine_returns [OF cb, THEN conjunct1])
  have bm: "build_mask c ?self (cb_sciimg r) (cb_sciivar r) (cb_crmask r)
               (py_invert (ir_redux ?self)) None = Inr (cb_mask r)"
    by (rule combine_returns [OF cb, THEN conjunct2])
  have all: "cb_crmask r i j \<longleftrightarrow> (\<forall>cr\<in>set (crmask_stack st). cr i j)" for i j
    using count0_all [of "crmask_stack st" i j] by (simp add: crm len)
  have bitcr: "flagged (cb_mask r i j) CR \<longleftrightarrow> (\<forall>cr\<in>set (crmask_stack st). cr i j)" for i j
    using build_mask_bits [OF bm, of i j] all [of i j] by blast
  have p4: "\<forall>i j. flagged (cb_mask r i j) CR \<longleftrightarrow> (\<forall>cr\<in>set (crmask_stack st). cr i j)"
    using bitcr by simp
  have p5: "\<not> ir_redux self \<longrightarrow>
         (\<exists>crm. crmask s' = Some crm
                \<and> (\<forall>i j. crm i j \<longleftrightarrow> (\<forall>cr\<in>set (crmask_stack st). cr i j)))"
    using cr all by simp
  show ?thesis
    apply (rule exI [of _ st])
    apply (rule exI [of _ "cb_mask r"])
    using rd len m p4 p5 apply (intro conjI)
        apply assumption+
    done
qed

lemma ex_cosmic_proc_returns:
  "\<exists>s'. proc ex_cosmic (init [''on'', ''off''] []) None None ex_bpm None False None 5 = Inr s'"
  by (simp add: proc_def init_def ex_cosmic_def ex_collab_def ex_bpm_def read_stack_def Let_def
      build_mask_def combine_def outmask_stack_of_def)

lemma ex_cosmic_crmask:
  "crmask_at (proc ex_cosmic (init [''on'', ''off''] []) None None ex_bpm None False None 5) 0 0
     = Some True
   \<and> crmask_at (proc ex_cosmic (init [''on'', ''off''] []) None None ex_bpm None False None 5) 0 1
     = Some False"
  by (simp add: proc_def init_def ex_cosmic_def ex_collab_def ex_bpm_def read_stack_def Let_def
      build_mask_def combine_def outmask_stack_of_def crmask_at_def count0_def build_crmask_def
      ex_frame_def)

text \<open>With two frames of which one is flagged at column 1 and both at column 0.\<close>

theorem proc_combined_crmask_all_frames_witness:
  "\<exists>s' (st :: stacks) msk crm.
      proc ex_cosmic (init [''on'', ''off''] []) None None ex_bpm None False None 5 = Inr s'
    \<and> 1 < nsci (init [''on'', ''off''] [])
    \<and> length (crmask_stack st) = 2
    \<and> mask_v s' = Some msk \<and> crmask s' = Some crm
    \<and> (\<forall>i j. flagged (msk i j) CR \<longleftrightarrow> (\<forall>cr\<in>set (crmask_stack st). cr i j))
    \<and> (\<forall>i j. crm i j \<longleftrightarrow> (\<forall>cr\<in>set (crmask_stack st). cr i j))
    \<and> crm 0 0 \<and> \<not> crm 0 1"
proof -
  let ?s0 = "init [''on'', ''off''] []"
  let ?p = "proc ex_cosmic ?s0 None None ex_bpm None False None 5"
  from ex_cosmic_proc_returns obtain s' where r: "?p = Inr s'" ..
  have n: "1 < nsci ?s0" and ir: "\<not> ir_redux ?s0" and fl: "file_list ?s0 = [''on'', ''off'']"
    by (simp_all add: init_def)
  from proc_combined_crmask_all_frames [OF r n] obtain st :: stacks and msk where
    len: "length (crmask_stack st)
            = length (if ir_redux ?s0 then file_list ?s0 @ bg_file_list ?s0 else file_list ?s0)"
    and m: "mask_v s' = Some msk"
    and bits: "\<forall>i j. flagged (msk i j) CR \<longleftrightarrow> (\<forall>cr\<in>set (crmask_stack st). cr i j)"
    and c: "\<not> ir_redux ?s0 \<longrightarrow>
              (\<exists>crm. crmask s' = Some crm
                     \<and> (\<forall>i j. crm i j \<longleftrightarrow> (\<forall>cr\<in>set (crmask_stack st). cr i j)))"
    by (elim exE conjE)
  from c ir have "\<exists>crm. crmask s' = Some crm
                     \<and> (\<forall>i j. crm i j \<longleftrightarrow> (\<forall>cr\<in>set (crmask_stack st). cr i j))"
    by (rule mp)
  then obtain crm where crm: "crmask s' = Some crm"
    and all: "\<forall>i j. crm i j \<longleftrightarrow> (\<forall>cr\<in>set (crmask_stack st). cr i j)"
    by (elim exE conjE)
  from len ir fl have len2: "length (crmask_stack st) = 2"
    by simp
  from ex_cosmic_crmask r crm have v: "crm 0 0" "\<not> crm 0 1"
    by (simp_all add: crmask_at_def)
  show ?thesis
    apply (rule exI [of _ s'])
    apply (rule exI [of _ st])
    apply (rule exI [of _ msk])
    apply (rule exI [of _ crm])
    using r n len2 m crm bits all v apply (intro conjI)
            apply assumption+
    done
qed

section \<open>The minimum-counts check\<close>

lemma build_mask_mincounts_disabled:
  assumes "build_mask c self a v cr 0 sm = Inr m"
  shows "\<not> flagged (m i j) MINCOUNTS"
  using build_mask_bits [OF assms, of i j] by (auto simp: truthy_def)

text \<open>
  C3: with difference imaging and more than one science frame, \<open>proc\<close> hands \<open>_build_mask\<close>
  the value \<open>~self.ir_redux\<close>, which is \<open>-2\<close> and true, so the check runs: two science
  frames of value -9999999999 and one background frame of value 1, none masked, combine to
  -10000000000, the detector's minimum, and the composite mask of the pixel is 8, the
  MINCOUNTS bit.
\<close>

theorem proc_difference_imaging_sets_mincounts:
  "ir_redux (init [''on1'', ''on2''] [''off''])
   \<and> truthy (py_invert (ir_redux (init [''on1'', ''on2''] [''off''])))
   \<and> sciimg_at (proc (ex_collab (- 9999999999) 1) (init [''on1'', ''on2''] [''off'']) None None
                  ex_bpm None False None 5) 0 0 = Some (Fin (- 10000000000))
   \<and> mask_at (proc (ex_collab (- 9999999999) 1) (init [''on1'', ''on2''] [''off'']) None None
                ex_bpm None False None 5) 0 0 = Some 8
   \<and> flagged 8 MINCOUNTS"
  by (simp add: proc_def init_def ex_collab_def ex_bpm_def read_stack_def Let_def
      build_mask_def combine_def outmask_stack_of_def mask_at_def sciimg_at_def count0_def
      build_crmask_def ex_frame_def turn_on_where_def turn_on_def ex_calc_ivar_def weights_of_def
      weights_stack_of_def wmean_def wvar_def weights_sum_of_stack_def ex_sum_def denom_def truthy_def
      py_invert_def flagged_def)

section \<open>The normalisation of the combine\<close>

lemma ex_read_stack:
  "read_stack (ex_collab 5 3) ex_ir [''on1'', ''on2'', ''off''] None None ex_bpm None False
     = Inr ex_stacks"
  by (simp add: read_stack_def ex_collab_def ex_ir_def init_def ex_bpm_def ex_stacks_def
      build_mask_def Let_def ex_frame_def ex_calc_ivar_def turn_on_where_def truthy_def)

lemma ex_read_stack_bad:
  "read_stack (ex_collab 5 3) ex_nonir [''on1'', ''on2''] None None (bpm ex_nonir) None True
     = Inr ex_stacks_bad"
  by (simp add: read_stack_def ex_collab_def ex_nonir_def init_def ex_stacks_bad_def
      build_mask_def Let_def ex_frame_def ex_calc_ivar_def turn_on_where_def turn_on_def
      truthy_def build_crmask_def fun_eq_iff)

text \<open>
  C8, as stated, fails: with difference imaging, two science frames of value 5 and one
  background frame of value 3, none masked, the used weights 1/2, 1/2 and -1 sum to zero
  at every pixel, and the combined image is 2 there, not zero.
\<close>

theorem combine_zero_weight_sum_counterexample:
  "ir_redux ex_ir
   \<and> weights_sum_at (ex_collab 5 3) ex_ir ex_stacks (weights_of (ex_collab 5 3) ex_ir) False 100
        5 0 0 = Some (Fin 0)
   \<and> combined_sciimg_at
         (combine (ex_collab 5 3) ex_ir ex_stacks (weights_of (ex_collab 5 3) ex_ir) 3 False 100
            5) 0 0
       = Some (Fin 2)
   \<and> sciimg_at (proc (ex_collab 5 3) (init [''on1'', ''on2''] [''off'']) None None ex_bpm None
                  False None 5) 0 0 = Some (Fin 2)"
  by (simp add: weights_sum_at_def weights_sum_of_def combined_sciimg_at_def ex_ir_def
      ex_stacks_def proc_def init_def ex_collab_def ex_bpm_def read_stack_def Let_def
      build_mask_def combine_def outmask_stack_of_def sciimg_at_def count0_def
      build_crmask_def ex_frame_def turn_on_where_def turn_on_def ex_calc_ivar_def weights_of_def
      weights_stack_of_def wmean_def wvar_def weights_sum_of_stack_def ex_sum_def denom_def
      truthy_def py_invert_def)

lemma zeros_replicate: "\<forall>x\<in>set xs. x = Fin 0 \<Longrightarrow> xs = replicate (length xs) (Fin 0)"
  by (induction xs) auto

lemma np_sum0_zeros:
  assumes "\<forall>n. np_sum0 c (replicate n (Fin 0)) = Fin 0" and "\<forall>x\<in>set xs. x = Fin 0"
  shows "np_sum0 c xs = Fin 0"
proof -
  from assms(2) have "xs = replicate (length xs) (Fin 0)"
    by (rule zeros_replicate)
  then have "np_sum0 c xs = np_sum0 c (replicate (length xs) (Fin 0))"
    by simp
  with assms(1) show ?thesis
    by simp
qed

lemma weights_stack_unused:
  assumes "\<forall>m\<in>set om. \<not> m i j" and "wi \<in> set (weights_stack_of weights om)"
  shows "wi i j = 0"
proof -
  from assms(2) obtain w m where "(w, m) \<in> set (zip weights om)"
    and wi: "wi = (\<lambda>i j. w * of_bool (m i j))"
    by (auto simp: weights_stack_of_def)
  then have "m \<in> set om"
    by (auto dest: set_zip_rightD)
  with assms(1) show ?thesis
    by (auto simp: wi)
qed

lemma weights_sum_unused:
  assumes zs: "\<forall>n. np_sum0 c (replicate n (Fin 0)) = Fin 0" and un: "\<forall>m\<in>set om. \<not> m i j"
  shows "weights_sum_of_stack c (weights_stack_of weights om) i j = Fin 0"
  unfolding weights_sum_of_stack_def
  by (rule np_sum0_zeros [OF zs]) (use weights_stack_unused [OF un] in auto)

lemma wmean_unused:
  assumes fl0: "fl c 0 = 0" and fl1: "fl c 1 = 1"
    and zs: "\<forall>n. np_sum0 c (replicate n (Fin 0)) = Fin 0"
    and fin: "\<forall>a\<in>set st. isfinite (a i j)"
    and z: "\<forall>w\<in>set wst. w i j = 0"
    and ws: "ws i j = Fin 0"
  shows "wmean c st wst ws i j = Fin 0" and "wvar c st wst ws i j = Fin 0"
proof -
  have el: "fmul (fl c) (a i j) (Fin (w i j)) = Fin 0
            \<and> fmul (fl c) (a i j) (Fin (fl c (w i j * w i j))) = Fin 0"
    if "(a, w) \<in> set (zip st wst)" for a w
  proof -
    from that have "a \<in> set st" and "w \<in> set wst"
      by (auto dest: set_zip_leftD set_zip_rightD)
    with fin z have "isfinite (a i j)" and "w i j = 0" by auto
    then show ?thesis by (cases "a i j") (auto simp: fl0)
  qed
  have s1: "np_sum0 c (map2 (\<lambda>a w. fmul (fl c) (a i j) (Fin (w i j))) st wst) = Fin 0"
    by (rule np_sum0_zeros [OF zs]) (auto simp: el)
  have s2: "np_sum0 c (map2 (\<lambda>a w. fmul (fl c) (a i j) (Fin (fl c (w i j * w i j)))) st wst)
            = Fin 0"
    by (rule np_sum0_zeros [OF zs]) (auto simp: el)
  show "wmean c st wst ws i j = Fin 0"
    by (simp add: wmean_def denom_def ws s1 fl0)
  show "wvar c st wst ws i j = Fin 0"
    by (simp add: wvar_def denom_def ws s2 fl0 fl1)
qed

lemma denom_nonzero: "denom ws i j \<noteq> Fin 0"
  by (simp add: denom_def)

lemma combine_images:
  assumes "combine c self st weights nfiles sigma_clip sigrej maxiters = Inr r"
  shows "\<exists>om. outmask_stack_of c self st sigma_clip sigrej maxiters = Some om
     \<and> cb_sciimg r = wmean c (sciimg_stack st) (weights_stack_of weights om)
                       (weights_sum_of_stack c (weights_stack_of weights om))
     \<and> cb_sciivar r =
         (\<lambda>i j. calc_ivar c
                  (wvar c (map (\<lambda>a. (\<lambda>i j. calc_ivar c (a i j))) (sciivar_stack st))
                     (weights_stack_of weights om)
                     (weights_sum_of_stack c (weights_stack_of weights om)) i j))
     \<and> cb_rn2img r = wvar c (rn2img_stack st) (weights_stack_of weights om)
                       (weights_sum_of_stack c (weights_stack_of weights om))"
  using assms
  by (auto simp: combine_def Let_def split: option.splits sum.splits)

text \<open>
  C8, amended: in the combine of \<open>proc\<close>, in every mode, a pixel at which no frame is used
  (every frame's \<open>outmask\<close> is false there) and whose stacked values are finite has a
  sum of used weights of zero and gets the combined image value zero, the read-noise
  value zero, and the inverse variance of a zero variance; and whatever the mode and the
  pixel, the divisor \<open>weights_sum + (weights_sum == 0)\<close> of the normalisation is not zero.
  Of the arithmetic of doubles this uses that zero and one are doubles and that numpy's
  sum of zeros is zero.
\<close>

theorem combine_unused_pixel_zero:
  assumes cb: "combine c self st weights nfiles sigma_clip sigrej maxiters = Inr r"
    and om: "outmask_stack_of c self st sigma_clip sigrej maxiters = Some om"
    and un: "\<forall>m\<in>set om. \<not> m i j"
    and fl0: "fl c 0 = 0" and fl1: "fl c 1 = 1"
    and zs: "\<forall>n. np_sum0 c (replicate n (Fin 0)) = Fin 0"
    and f1: "\<forall>a\<in>set (sciimg_stack st). isfinite (a i j)"
    and f2: "\<forall>a\<in>set (sciivar_stack st). isfinite (calc_ivar c (a i j))"
    and f3: "\<forall>a\<in>set (rn2img_stack st). isfinite (a i j)"
  shows "weights_sum_at c self st weights sigma_clip sigrej maxiters i j = Some (Fin 0)
         \<and> cb_sciimg r i j = Fin 0 \<and> cb_sciivar r i j = calc_ivar c (Fin 0)
         \<and> cb_rn2img r i j = Fin 0 \<and> denom ws' i' j' \<noteq> Fin 0"
proof -
  let ?wst = "weights_stack_of weights om"
  let ?ws = "weights_sum_of_stack c ?wst"
  from combine_images [OF cb] om have
    img: "cb_sciimg r = wmean c (sciimg_stack st) ?wst ?ws"
    and ivar: "cb_sciivar r =
         (\<lambda>i j. calc_ivar c
                  (wvar c (map (\<lambda>a. (\<lambda>i j. calc_ivar c (a i j))) (sciivar_stack st))
                     ?wst ?ws i j))"
    and rn2: "cb_rn2img r = wvar c (rn2img_stack st) ?wst ?ws"
    by auto
  have z': "?ws i j = Fin 0"
    by (rule weights_sum_unused [OF zs un])
  have wz: "\<forall>w\<in>set ?wst. w i j = 0"
    using weights_stack_unused [OF un] by blast
  have f2': "\<forall>a\<in>set (map (\<lambda>a. (\<lambda>i j. calc_ivar c (a i j))) (sciivar_stack st)).
               isfinite (a i j)"
    using f2 by simp
  have "weights_sum_at c self st weights sigma_clip sigrej maxiters i j = Some (Fin 0)"
    by (simp add: weights_sum_at_def weights_sum_of_def om z')
  moreover have "cb_sciimg r i j = Fin 0"
    unfolding img
    by (rule wmean_unused(1) [where ws = ?ws and i = i and j = j, OF fl0 fl1 zs f1 wz z'])
  moreover have "cb_sciivar r i j = calc_ivar c (Fin 0)"
    unfolding ivar
    using wmean_unused(2) [where ws = ?ws and i = i and j = j, OF fl0 fl1 zs f2' wz z'] by simp
  moreover have "cb_rn2img r i j = Fin 0"
    unfolding rn2
    by (rule wmean_unused(2) [where ws = ?ws and i = i and j = j, OF fl0 fl1 zs f3 wz z'])
  ultimately show ?thesis
    by (simp add: denom_nonzero)
qed

lemma ex_sum_zeros: "ex_sum (replicate n (Fin 0)) = Fin 0"
proof -
  have "foldl (fadd (\<lambda>x. x)) (Fin 0) (replicate n (Fin 0)) = Fin 0"
    by (induction n) simp_all
  then show ?thesis
    by (simp add: ex_sum_def)
qed

lemma ex_combine_bad_returns:
  "\<exists>r. combine (ex_collab 5 3) ex_nonir ex_stacks_bad (weights_of (ex_collab 5 3) ex_nonir) 2
          False 100 5 = Inr r"
  by (simp add: combine_def outmask_stack_of_def ex_stacks_bad_def build_mask_def ex_nonir_def
      init_def Let_def)

lemma ex_outmask_bad:
  "\<exists>om. outmask_stack_of (ex_collab 5 3) ex_nonir ex_stacks_bad False 100 5 = Some om
        \<and> (\<forall>m\<in>set om. \<not> m 0 0)"
  by (simp add: outmask_stack_of_def ex_stacks_bad_def)

text \<open>
  With two frames whose bad-pixel mask flags column 0: no frame is used at the pixel
  (0, 0).
\<close>

theorem combine_unused_pixel_zero_witness:
  "\<exists>(r :: combined) om.
      combine (ex_collab 5 3) ex_nonir ex_stacks_bad (weights_of (ex_collab 5 3) ex_nonir) 2
        False 100 5 = Inr r
    \<and> outmask_stack_of (ex_collab 5 3) ex_nonir ex_stacks_bad False 100 5 = Some om
    \<and> (\<forall>m\<in>set om. \<not> m 0 0)
    \<and> fl (ex_collab 5 3) 0 = 0 \<and> fl (ex_collab 5 3) 1 = 1
    \<and> (\<forall>n. np_sum0 (ex_collab 5 3) (replicate n (Fin 0)) = Fin 0)
    \<and> (\<forall>a\<in>set (sciimg_stack ex_stacks_bad). isfinite (a 0 0))
    \<and> (\<forall>a\<in>set (sciivar_stack ex_stacks_bad). isfinite (calc_ivar (ex_collab 5 3) (a 0 0)))
    \<and> (\<forall>a\<in>set (rn2img_stack ex_stacks_bad). isfinite (a 0 0))
    \<and> weights_sum_at (ex_collab 5 3) ex_nonir ex_stacks_bad
          (weights_of (ex_collab 5 3) ex_nonir) False 100 5 0 0 = Some (Fin 0)
    \<and> cb_sciimg r 0 0 = Fin 0 \<and> cb_sciivar r 0 0 = calc_ivar (ex_collab 5 3) (Fin 0)
    \<and> cb_rn2img r 0 0 = Fin 0 \<and> denom (\<lambda>i j. Fin 0) 0 0 \<noteq> Fin 0"
proof -
  from ex_combine_bad_returns obtain r where
    cb: "combine (ex_collab 5 3) ex_nonir ex_stacks_bad (weights_of (ex_collab 5 3) ex_nonir) 2
           False 100 5 = Inr r" ..
  from ex_outmask_bad obtain om where
    om: "outmask_stack_of (ex_collab 5 3) ex_nonir ex_stacks_bad False 100 5 = Some om"
    and un: "\<forall>m\<in>set om. \<not> m 0 0"
    by (elim exE conjE)
  have fl0: "fl (ex_collab 5 3) 0 = 0" and fl1: "fl (ex_collab 5 3) 1 = 1"
    by (simp_all add: ex_collab_def)
  have zs: "\<forall>n. np_sum0 (ex_collab 5 3) (replicate n (Fin 0)) = Fin 0"
    by (simp add: ex_collab_def ex_sum_zeros)
  have f1: "\<forall>a\<in>set (sciimg_stack ex_stacks_bad). isfinite (a 0 0)"
    and f2: "\<forall>a\<in>set (sciivar_stack ex_stacks_bad). isfinite (calc_ivar (ex_collab 5 3) (a 0 0))"
    and f3: "\<forall>a\<in>set (rn2img_stack ex_stacks_bad). isfinite (a 0 0)"
    by (simp_all add: ex_stacks_bad_def ex_collab_def ex_calc_ivar_def)
  note t = combine_unused_pixel_zero [OF cb om un fl0 fl1 zs f1 f2 f3, of "\<lambda>i j. Fin 0" 0 0]
  show ?thesis
    apply (rule exI [of _ r])
    apply (rule exI [of _ om])
    using cb om un fl0 fl1 zs f1 f2 f3 t apply (intro conjI)
                 apply (elim conjE, assumption)+
    done
qed

section \<open>Difference imaging with one science frame\<close>

text \<open>
  C4: the weights are \<open>1/nsci\<close> and \<open>-1/nbg\<close>, but with a single science frame the
  combine is skipped, because the test is on \<open>nsci\<close> and not on the number of files: for one
  science frame of value 5 and one background frame of value 3, both unmasked, \<open>proc\<close>
  returns the image 5, the science frame alone, and not the difference 2.
\<close>

theorem proc_single_science_frame_no_difference:
  "ir_redux (init [''on''] [''off''])
   \<and> weights_of (ex_collab 5 3) (init [''on''] [''off'']) = [1, - 1]
   \<and> mask_at (proc (ex_collab 5 3) (init [''on''] [''off'']) None None ex_bpm None False None 5)
        0 0 = Some 0
   \<and> sciimg_at (proc (ex_collab 5 3) (init [''on''] [''off'']) None None ex_bpm None False None 5)
        0 0 = Some (Fin 5)
   \<and> Fin 5 \<noteq> Fin (5 - 3)"
  by (simp add: proc_def init_def ex_collab_def ex_bpm_def read_stack_def Let_def
      build_mask_def first_frame_def mask_at_def sciimg_at_def
      ex_frame_def turn_on_where_def turn_on_def ex_calc_ivar_def weights_of_def truthy_def)

section \<open>Slits whose sky model sums to zero\<close>

lemma select_cong_on:
  assumes "\<And>i j. m i j \<Longrightarrow> a i j = b i j"
  shows "select sh m a = select sh m b"
  unfolding select_def by (rule map_cong) (auto simp: assms)

lemma gdslits_of_set: "set (gdslits_of ms) = {s. s < length ms \<and> \<not> ms ! s}"
  by (auto simp: gdslits_of_def)

lemma gdslits_of_distinct: "distinct (gdslits_of ms)"
  by (simp add: gdslits_of_def)

lemma gs_step_returns:
  assumes "gs_step c si iv ti msk crm slm tsl skym ir slit acc = Inr acc'"
  shows "\<exists>fit. gs_fit c si iv ti msk crm slm tsl skym ir slit = Inr fit
      \<and> fst acc' = assign_where (thismask_of slm slit) fit (fst acc)
      \<and> snd acc' = (if np_sum c (select (det_shape c) (thismask_of slm slit) (fst acc')) = Fin 0
                    then (snd acc)[slit := True] else snd acc)"
  using assms by (auto simp: gs_step_def Let_def split: if_splits sum.splits)

lemma gs_loop_invariant:
  assumes "gs_loop c si iv ti msk crm slm tsl skym ir slits acc = Inr acc'"
    and "distinct slits"
  shows "length (snd acc') = length (snd acc)
     \<and> (\<forall>i j. (\<forall>s\<in>set slits. \<not> thismask_of slm s i j) \<longrightarrow> fst acc' i j = fst acc i j)
     \<and> (\<forall>s\<in>set slits. \<exists>fit. gs_fit c si iv ti msk crm slm tsl skym ir s = Inr fit
                              \<and> (\<forall>i j. thismask_of slm s i j \<longrightarrow> fst acc' i j = fit i j))
     \<and> (\<forall>s<length (snd acc).
           snd acc' ! s \<longleftrightarrow>
             snd acc ! s
             \<or> (s \<in> set slits
                \<and> np_sum c (select (det_shape c) (thismask_of slm s) (fst acc')) = Fin 0))"
  using assms
proof (induction slits arbitrary: acc)
  case Nil
  then show ?case by simp
next
  case (Cons a rest)
  from Cons.prems(1) obtain acc1 where
    st: "gs_step c si iv ti msk crm slm tsl skym ir a acc = Inr acc1"
    and lp: "gs_loop c si iv ti msk crm slm tsl skym ir rest acc1 = Inr acc'"
    by (auto split: sum.splits)
  from Cons.prems(2) have d: "distinct rest" and na: "a \<notin> set rest"
    by simp_all
  note ih = Cons.IH [OF lp d]
  note iha = ih [THEN conjunct1]
  note ihb = ih [THEN conjunct2, THEN conjunct1, THEN spec, THEN spec, THEN mp]
  note ihc = ih [THEN conjunct2, THEN conjunct2, THEN conjunct1, rule_format]
  note ihd = ih [THEN conjunct2, THEN conjunct2, THEN conjunct2, rule_format]
  from gs_step_returns [OF st] obtain fit where
    fit: "gs_fit c si iv ti msk crm slm tsl skym ir a = Inr fit"
    and g1: "fst acc1 = assign_where (thismask_of slm a) fit (fst acc)"
    and m1: "snd acc1 = (if np_sum c (select (det_shape c) (thismask_of slm a) (fst acc1)) = Fin 0
                         then (snd acc)[a := True] else snd acc)"
    by (elim exE conjE)
  have len1: "length (snd acc1) = length (snd acc)"
    by (simp add: m1)
  have in_a: "fst acc' i j = fst acc1 i j" if "thismask_of slm a i j" for i j
  proof (rule ihb)
    show "\<forall>s\<in>set rest. \<not> thismask_of slm s i j"
      using that na by (auto simp: thismask_of_def)
  qed
  have sum_a: "np_sum c (select (det_shape c) (thismask_of slm a) (fst acc1))
               = np_sum c (select (det_shape c) (thismask_of slm a) (fst acc'))"
    using select_cong_on [of "thismask_of slm a" "fst acc1" "fst acc'" "det_shape c"] in_a
    by simp
  have A: "length (snd acc') = length (snd acc)"
    using iha len1 by simp
  have B: "\<forall>i j. (\<forall>s\<in>set (a # rest). \<not> thismask_of slm s i j) \<longrightarrow> fst acc' i j = fst acc i j"
  proof (intro allI impI)
    fix i j assume n: "\<forall>s\<in>set (a # rest). \<not> thismask_of slm s i j"
    then have "\<forall>s\<in>set rest. \<not> thismask_of slm s i j"
      by simp
    then have "fst acc' i j = fst acc1 i j"
      by (rule ihb)
    moreover from n have "fst acc1 i j = fst acc i j"
      by (simp add: g1 assign_where_def)
    ultimately show "fst acc' i j = fst acc i j" by simp
  qed
  have C: "\<forall>s\<in>set (a # rest). \<exists>fit. gs_fit c si iv ti msk crm slm tsl skym ir s = Inr fit
                              \<and> (\<forall>i j. thismask_of slm s i j \<longrightarrow> fst acc' i j = fit i j)"
  proof
    fix s assume "s \<in> set (a # rest)"
    then consider "s = a" | "s \<in> set rest" by auto
    then show "\<exists>fit. gs_fit c si iv ti msk crm slm tsl skym ir s = Inr fit
                              \<and> (\<forall>i j. thismask_of slm s i j \<longrightarrow> fst acc' i j = fit i j)"
    proof cases
      case 1
      have "\<forall>i j. thismask_of slm a i j \<longrightarrow> fst acc' i j = fit i j"
        using in_a by (simp add: g1 assign_where_def)
      with fit 1 show ?thesis by blast
    next
      case 2
      then show ?thesis by (rule ihc)
    qed
  qed
  have D: "\<forall>s<length (snd acc).
           snd acc' ! s \<longleftrightarrow>
             snd acc ! s
             \<or> (s \<in> set (a # rest)
                \<and> np_sum c (select (det_shape c) (thismask_of slm s) (fst acc')) = Fin 0)"
  proof (intro allI impI)
    fix s assume s: "s < length (snd acc)"
    then have "s < length (snd acc1)" by (simp add: len1)
    then have 1: "snd acc' ! s \<longleftrightarrow>
             snd acc1 ! s
             \<or> (s \<in> set rest
                \<and> np_sum c (select (det_shape c) (thismask_of slm s) (fst acc')) = Fin 0)"
      by (rule ihd)
    have 2: "snd acc1 ! s \<longleftrightarrow>
             snd acc ! s
             \<or> (s = a \<and> np_sum c (select (det_shape c) (thismask_of slm a) (fst acc')) = Fin 0)"
      using s by (cases "s = a") (auto simp: m1 sum_a)
    from 1 2 show "snd acc' ! s \<longleftrightarrow>
             snd acc ! s
             \<or> (s \<in> set (a # rest)
                \<and> np_sum c (select (det_shape c) (thismask_of slm s) (fst acc')) = Fin 0)"
      by auto
  qed
  from A B C D show ?case by (intro conjI)
qed

lemma lse_step_untouched:
  assumes "lse_step c si iv ti wv gs rn msk crm slm tsl obs slit acc = Inr acc'"
    and "\<not> thismask_of slm slit i j"
  shows "lse_skymodel acc' i j = lse_skymodel acc i j
       \<and> lse_objmodel acc' i j = lse_objmodel acc i j
       \<and> lse_ivarmodel acc' i j = lse_ivarmodel acc i j
       \<and> lse_extractmask acc' i j = lse_extractmask acc i j"
  using assms
  by (auto simp: lse_step_def Let_def assign_where_def split: if_splits sum.splits)

lemma lse_loop_untouched:
  assumes "lse_loop c si iv ti wv gs rn msk crm slm tsl obs slits acc = Inr acc'"
    and "\<forall>s\<in>set slits. \<not> thismask_of slm s i j"
  shows "lse_skymodel acc' i j = lse_skymodel acc i j
       \<and> lse_objmodel acc' i j = lse_objmodel acc i j
       \<and> lse_ivarmodel acc' i j = lse_ivarmodel acc i j
       \<and> lse_extractmask acc' i j = lse_extractmask acc i j"
  using assms
proof (induction slits arbitrary: acc)
  case Nil
  then show ?case by simp
next
  case (Cons a rest)
  from Cons.prems(1) obtain acc1 where
    st: "lse_step c si iv ti wv gs rn msk crm slm tsl obs a acc = Inr acc1"
    and lp: "lse_loop c si iv ti wv gs rn msk crm slm tsl obs rest acc1 = Inr acc'"
    by (auto split: sum.splits)
  from Cons.prems(2) have na: "\<not> thismask_of slm a i j"
    and nr: "\<forall>s\<in>set rest. \<not> thismask_of slm s i j"
    by simp_all
  from Cons.IH [OF lp nr] lse_step_untouched [OF st na] show ?case
    by simp
qed

lemma get_goodslits_keeps:
  assumes "get_goodslits self msa = Inr (ms, self1)" and "maskslits self = Some ms1"
    and "msa = None \<or> msa = Some ms1"
  shows "ms = ms1"
  using assms by (auto simp: get_goodslits_def)

lemma global_skysub_returns:
  assumes "global_skysub c self tslits_a tilts_a use_skymask update_crmask maskslits_a = Inr s1"
  shows "\<exists>sciimg_v sciivar_v crm ms0 self1 slm msk gsky ms1.
      sciimg self = Some sciimg_v \<and> sciivar self = Some sciivar_v \<and> crmask self = Some crm
    \<and> get_goodslits (self\<lparr> tslits_dict := Some tslits_a, tilts := Some tilts_a \<rparr>) maskslits_a
        = Inr (ms0, self1)
    \<and> (case slitmask self1 of None \<Rightarrow> slitmask_svc c (Some tslits_a) | Some sm \<Rightarrow> Inr sm)
        = Inr slm
    \<and> (case mask_v self1 of
          None \<Rightarrow> build_mask c (self1\<lparr> slitmask := Some slm \<rparr>) sciimg_v sciivar_v crm 1
                    (Some slm)
        | Some m \<Rightarrow> Inr m) = Inr msk
    \<and> gs_loop c sciimg_v sciivar_v tilts_a msk crm slm tslits_a
         (case skymask self1 of
            None \<Rightarrow> (\<lambda>i j. True)
          | Some sk \<Rightarrow> if use_skymask then sk else (\<lambda>i j. True))
         (ir_redux self1) (gdslits_of ms0) ((\<lambda>i j. Fin 0), ms0) = Inr (gsky, ms1)
    \<and> maskslits s1 = Some ms1 \<and> slitmask s1 = Some slm \<and> global_sky s1 = Some gsky
    \<and> sciivar s1 = sciivar self1"
  using assms
  unfolding global_skysub_def Let_def
  by (auto split: sum.split_asm prod.split_asm option.split_asm if_split_asm)

lemma local_skysub_extract_skips:
  assumes lse: "local_skysub_extract c s1 sobjs_a waveimg_a msa = Inr s2"
    and ms1: "maskslits s1 = Some ms1" and msa: "msa = None \<or> msa = Some ms1"
    and slm: "slitmask s1 = Some slm" and gsky: "global_sky s1 = Some gsky"
    and iv: "sciivar s1 = Some sciivar_v"
  shows "\<exists>sky obj iv. skymodel s2 = Some sky \<and> objmodel s2 = Some obj \<and> ivarmodel s2 = Some iv
           \<and> (\<forall>s<length ms1. ms1 ! s \<longrightarrow>
                 (\<forall>i j. thismask_of slm s i j \<longrightarrow>
                    sky i j = gsky i j \<and> obj i j = Fin 0 \<and> iv i j = sciivar_v i j))"
proof -
  from local_skysub_extract_returns [OF lse] obtain ms self1 slm' si iv' rn gs' ti wv tsl msk crm
    and r :: lse_result where
    g: "get_goodslits (s1\<lparr> waveimg := waveimg_a \<rparr>) msa = Inr (ms, self1)"
    and sl: "(case slitmask self1 of
               None \<Rightarrow> slitmask_svc c (tslits_dict self1)
             | Some sm \<Rightarrow> Inr sm) = Inr slm'"
    and iv1: "sciivar self1 = Some iv'"
    and gs1: "global_sky self1 = Some gs'"
    and lp: "lse_loop c si iv' ti wv gs' rn msk crm slm' tsl sobjs_a (gdslits_of ms)
              \<lparr> lse_skymodel = gs', lse_objmodel = (\<lambda>i j. Fin 0), lse_ivarmodel = iv',
                lse_extractmask = (\<lambda>i j. msk i j = 0) \<rparr> = Inr r"
    and eq: "s2 = self1\<lparr> slitmask := Some slm',
                       outmask := Some (add_extract_bit msk (lse_extractmask r) msk),
                       extractmask := Some (lse_extractmask r),
                       objmodel := Some (lse_objmodel r),
                       skymodel := Some (lse_skymodel r),
                       ivarmodel := Some (lse_ivarmodel r),
                       sobjs := Some sobjs_a,
                       steps := steps self1 @ [''local_skysub_extract''] \<rparr>"
    by (elim exE conjE)
  have self1: "self1 = s1\<lparr> waveimg := waveimg_a, maskslits := Some ms \<rparr>"
    using get_goodslits_result [OF g] by simp
  have ms: "ms = ms1"
    using get_goodslits_keeps [OF g _ msa] ms1 by simp
  from sl slm have slm': "slm' = slm" by (simp add: self1)
  from iv1 iv have iv': "iv' = sciivar_v" by (simp add: self1)
  from gs1 gsky have gs': "gs' = gsky" by (simp add: self1)
  have px: "lse_skymodel r i j = gsky i j \<and> lse_objmodel r i j = Fin 0
            \<and> lse_ivarmodel r i j = sciivar_v i j"
    if s: "s < length ms1" "ms1 ! s" and t: "thismask_of slm s i j" for s i j
  proof -
    have "\<forall>s'\<in>set (gdslits_of ms). \<not> thismask_of slm' s' i j"
      using s t by (auto simp: gdslits_of_set ms slm' thismask_of_def)
    from lse_loop_untouched [OF lp this] show ?thesis
      by (simp add: gs' iv')
  qed
  have all: "\<forall>s<length ms1. ms1 ! s \<longrightarrow>
                 (\<forall>i j. thismask_of slm s i j \<longrightarrow>
                    lse_skymodel r i j = gsky i j \<and> lse_objmodel r i j = Fin 0
                    \<and> lse_ivarmodel r i j = sciivar_v i j)"
    using px by blast
  from eq have f: "skymodel s2 = Some (lse_skymodel r)" "objmodel s2 = Some (lse_objmodel r)"
    "ivarmodel s2 = Some (lse_ivarmodel r)"
    by simp_all
  show ?thesis
    apply (rule exI [of _ "lse_skymodel r"])
    apply (rule exI [of _ "lse_objmodel r"])
    apply (rule exI [of _ "lse_ivarmodel r"])
    using f all apply (intro conjI)
       apply assumption+
    done
qed

text \<open>
  C6: whenever \<open>global_skysub\<close> returns, a slit is masked afterwards exactly when it was
  masked before or the sum \<open>np.sum\<close> of the sky image over its pixels is zero; every slit
  that was not masked before has been fitted, whatever happened to the slits before it,
  its pixels of the sky image hold its fit, and it is masked afterwards exactly when the
  sum of that fit over its pixels is zero. A following \<open>local_skysub_extract\<close>, called
  with the default \<open>maskslits=None\<close> or with the updated slit selection, leaves the pixels
  of every masked slit at their defaults: the global sky, a zero object model and the
  input inverse variance. The sum is numpy's own, on doubles, whatever it computes.
\<close>

theorem global_skysub_zero_sum_slit_excluded:
  assumes gs: "global_skysub c self tslits_a tilts_a use_skymask update_crmask maskslits_a = Inr s1"
  shows "\<exists>sciimg_v sciivar_v crm ms0 self1 slm msk gsky ms1.
      sciimg self = Some sciimg_v \<and> sciivar self = Some sciivar_v \<and> crmask self = Some crm
    \<and> get_goodslits (self\<lparr> tslits_dict := Some tslits_a, tilts := Some tilts_a \<rparr>) maskslits_a
        = Inr (ms0, self1)
    \<and> (case mask_v self1 of
          None \<Rightarrow> build_mask c (self1\<lparr> slitmask := Some slm \<rparr>) sciimg_v sciivar_v crm 1
                    (Some slm)
        | Some m \<Rightarrow> Inr m) = Inr msk
    \<and> maskslits s1 = Some ms1 \<and> length ms1 = length ms0
    \<and> slitmask s1 = Some slm \<and> global_sky s1 = Some gsky
    \<and> (\<forall>s<length ms0.
          ms1 ! s \<longleftrightarrow>
            ms0 ! s \<or> np_sum c (select (det_shape c) (thismask_of slm s) gsky) = Fin 0)
    \<and> (\<forall>s<length ms0. \<not> ms0 ! s \<longrightarrow>
          (\<exists>fit. gs_fit c sciimg_v sciivar_v tilts_a msk crm slm tslits_a
                    (case skymask self of
                       None \<Rightarrow> (\<lambda>i j. True)
                     | Some sk \<Rightarrow> if use_skymask then sk else (\<lambda>i j. True))
                    (ir_redux self) s = Inr fit
               \<and> (\<forall>i j. thismask_of slm s i j \<longrightarrow> gsky i j = fit i j)
               \<and> (ms1 ! s \<longleftrightarrow>
                    np_sum c (select (det_shape c) (thismask_of slm s) fit) = Fin 0)))
    \<and> (\<forall>sobjs_a waveimg_a msa s2.
          (msa = None \<or> msa = Some ms1)
          \<and> local_skysub_extract c s1 sobjs_a waveimg_a msa = Inr s2 \<longrightarrow>
          (\<exists>sky obj iv. skymodel s2 = Some sky \<and> objmodel s2 = Some obj \<and> ivarmodel s2 = Some iv
             \<and> (\<forall>s<length ms1. ms1 ! s \<longrightarrow>
                  (\<forall>i j. thismask_of slm s i j \<longrightarrow>
                     sky i j = gsky i j \<and> obj i j = Fin 0 \<and> iv i j = sciivar_v i j))))"
proof -
  let ?self = "self\<lparr> tslits_dict := Some tslits_a, tilts := Some tilts_a \<rparr>"
  from global_skysub_returns [OF gs] obtain sciimg_v sciivar_v crm ms0 self1 slm msk gsky ms1 where
    si: "sciimg self = Some sciimg_v" and iv: "sciivar self = Some sciivar_v"
    and cr: "crmask self = Some crm"
    and g: "get_goodslits ?self maskslits_a = Inr (ms0, self1)"
    and bm: "(case mask_v self1 of
          None \<Rightarrow> build_mask c (self1\<lparr> slitmask := Some slm \<rparr>) sciimg_v sciivar_v crm 1
                    (Some slm)
        | Some m \<Rightarrow> Inr m) = Inr msk"
    and lp: "gs_loop c sciimg_v sciivar_v tilts_a msk crm slm tslits_a
         (case skymask self1 of
            None \<Rightarrow> (\<lambda>i j. True)
          | Some sk \<Rightarrow> if use_skymask then sk else (\<lambda>i j. True))
         (ir_redux self1) (gdslits_of ms0) ((\<lambda>i j. Fin 0), ms0) = Inr (gsky, ms1)"
    and m1: "maskslits s1 = Some ms1" and sl: "slitmask s1 = Some slm"
    and gk: "global_sky s1 = Some gsky" and iv1: "sciivar s1 = sciivar self1"
    by (elim exE conjE)
  have self1: "self1 = ?self\<lparr> maskslits := Some ms0 \<rparr>"
    by (rule get_goodslits_result [OF g])
  have sk: "skymask self1 = skymask self" and ir: "ir_redux self1 = ir_redux self"
    and iv1': "sciivar s1 = Some sciivar_v"
    using iv iv1 by (simp_all add: self1)
  let ?skym = "case skymask self of
                 None \<Rightarrow> (\<lambda>i j. True)
               | Some sk \<Rightarrow> if use_skymask then sk else (\<lambda>i j. True)"
  from lp have lp': "gs_loop c sciimg_v sciivar_v tilts_a msk crm slm tslits_a ?skym
         (ir_redux self) (gdslits_of ms0) ((\<lambda>i j. Fin 0), ms0) = Inr (gsky, ms1)"
    by (simp add: sk ir)
  note inv = gs_loop_invariant [OF lp' gdslits_of_distinct]
  have A: "length ms1 = length ms0"
    using inv [THEN conjunct1] by simp
  have C: "\<exists>fit. gs_fit c sciimg_v sciivar_v tilts_a msk crm slm tslits_a ?skym (ir_redux self) s
                  = Inr fit
                \<and> (\<forall>i j. thismask_of slm s i j \<longrightarrow> gsky i j = fit i j)"
    if "s \<in> set (gdslits_of ms0)" for s
    using inv [THEN conjunct2, THEN conjunct2, THEN conjunct1, rule_format, OF that] by simp
  have D: "ms1 ! s \<longleftrightarrow>
             ms0 ! s
             \<or> (s \<in> set (gdslits_of ms0)
                \<and> np_sum c (select (det_shape c) (thismask_of slm s) gsky) = Fin 0)"
    if "s < length ms0" for s
    using inv [THEN conjunct2, THEN conjunct2, THEN conjunct2, rule_format, of s] that by simp
  have E: "\<forall>s<length ms0.
          ms1 ! s \<longleftrightarrow>
            ms0 ! s \<or> np_sum c (select (det_shape c) (thismask_of slm s) gsky) = Fin 0"
    using D by (auto simp: gdslits_of_set)
  have F: "\<forall>s<length ms0. \<not> ms0 ! s \<longrightarrow>
          (\<exists>fit. gs_fit c sciimg_v sciivar_v tilts_a msk crm slm tslits_a ?skym (ir_redux self) s
                  = Inr fit
               \<and> (\<forall>i j. thismask_of slm s i j \<longrightarrow> gsky i j = fit i j)
               \<and> (ms1 ! s \<longleftrightarrow>
                    np_sum c (select (det_shape c) (thismask_of slm s) fit) = Fin 0))"
  proof (intro allI impI)
    fix s assume s: "s < length ms0" and n: "\<not> ms0 ! s"
    then have mem: "s \<in> set (gdslits_of ms0)"
      by (simp add: gdslits_of_set)
    from C [OF mem] obtain fit where
      f: "gs_fit c sciimg_v sciivar_v tilts_a msk crm slm tslits_a ?skym (ir_redux self) s
            = Inr fit"
      and e: "\<forall>i j. thismask_of slm s i j \<longrightarrow> gsky i j = fit i j"
      by (elim exE conjE)
    have "select (det_shape c) (thismask_of slm s) gsky
          = select (det_shape c) (thismask_of slm s) fit"
      by (rule select_cong_on) (use e in simp)
    with D [OF s] n mem have "ms1 ! s \<longleftrightarrow>
                    np_sum c (select (det_shape c) (thismask_of slm s) fit) = Fin 0"
      by simp
    with f e show "\<exists>fit. gs_fit c sciimg_v sciivar_v tilts_a msk crm slm tslits_a ?skym
                          (ir_redux self) s = Inr fit
               \<and> (\<forall>i j. thismask_of slm s i j \<longrightarrow> gsky i j = fit i j)
               \<and> (ms1 ! s \<longleftrightarrow>
                    np_sum c (select (det_shape c) (thismask_of slm s) fit) = Fin 0)"
      by (intro exI [of _ fit] conjI)
  qed
  have G: "\<forall>sobjs_a waveimg_a msa s2.
          (msa = None \<or> msa = Some ms1)
          \<and> local_skysub_extract c s1 sobjs_a waveimg_a msa = Inr s2 \<longrightarrow>
          (\<exists>sky obj iv. skymodel s2 = Some sky \<and> objmodel s2 = Some obj \<and> ivarmodel s2 = Some iv
             \<and> (\<forall>s<length ms1. ms1 ! s \<longrightarrow>
                  (\<forall>i j. thismask_of slm s i j \<longrightarrow>
                     sky i j = gsky i j \<and> obj i j = Fin 0 \<and> iv i j = sciivar_v i j)))"
  proof (intro allI impI, elim conjE)
    fix sobjs_a waveimg_a msa s2
    assume msa: "msa = None \<or> msa = Some ms1"
      and lse: "local_skysub_extract c s1 sobjs_a waveimg_a msa = Inr s2"
    show "\<exists>sky obj iv. skymodel s2 = Some sky \<and> objmodel s2 = Some obj \<and> ivarmodel s2 = Some iv
             \<and> (\<forall>s<length ms1. ms1 ! s \<longrightarrow>
                  (\<forall>i j. thismask_of slm s i j \<longrightarrow>
                     sky i j = gsky i j \<and> obj i j = Fin 0 \<and> iv i j = sciivar_v i j))"
      by (rule local_skysub_extract_skips [OF lse m1 msa sl gk iv1'])
  qed
  show ?thesis
    apply (rule exI [of _ sciimg_v])
    apply (rule exI [of _ sciivar_v])
    apply (rule exI [of _ crm])
    apply (rule exI [of _ ms0])
    apply (rule exI [of _ self1])
    apply (rule exI [of _ slm])
    apply (rule exI [of _ msk])
    apply (rule exI [of _ gsky])
    apply (rule exI [of _ ms1])
    using si iv cr g bm m1 A sl gk E F G apply (intro conjI)
               apply assumption+
    done
qed

lemma pixels_1_3: "pixels (Suc 0, 3) = [(0, 0), (0, Suc 0), (0, 2)]"
  by (simp add: pixels_def upt_rec)

lemma gdslits_of_middle: "gdslits_of [False, True, False] = [0, 2]"
  by (simp add: gdslits_of_def upt_rec)

lemma ex_global_skysub_value:
  "\<exists>s1. global_skysub (ex_collab 5 3) ex_reduced ex_tslits ex_tilts True True None = Inr s1
        \<and> maskslits s1 = Some [False, True, False]"
  by (simp add: global_skysub_def get_goodslits_def ex_reduced_def init_def ex_collab_def
      ex_tslits_def gdslits_of_three gs_step_def gs_fit_def thismask_of_def Let_def
      assign_where_def select_def pixels_1_3 ex_sum_def build_mask_def)

text \<open>
  With three slits of which the middle one is fitted with a zero sky: it alone is masked.
\<close>

theorem global_skysub_zero_sum_slit_excluded_witness:
  "\<exists>s1. global_skysub (ex_collab 5 3) ex_reduced ex_tslits ex_tilts True True None = Inr s1
     \<and> maskslits s1 = Some [False, True, False]
     \<and> (\<exists>sciimg_v sciivar_v crm ms0 self1 slm msk gsky ms1.
      sciimg ex_reduced = Some sciimg_v \<and> sciivar ex_reduced = Some sciivar_v \<and> crmask ex_reduced = Some crm
    \<and> get_goodslits (ex_reduced\<lparr> tslits_dict := Some ex_tslits, tilts := Some ex_tilts \<rparr>) None
        = Inr (ms0, self1)
    \<and> (case mask_v self1 of
          None \<Rightarrow> build_mask (ex_collab 5 3) (self1\<lparr> slitmask := Some slm \<rparr>) sciimg_v sciivar_v crm 1
                    (Some slm)
        | Some m \<Rightarrow> Inr m) = Inr msk
    \<and> maskslits s1 = Some ms1 \<and> length ms1 = length ms0
    \<and> slitmask s1 = Some slm \<and> global_sky s1 = Some gsky
    \<and> (\<forall>s<length ms0.
          ms1 ! s \<longleftrightarrow>
            ms0 ! s \<or> np_sum (ex_collab 5 3) (select (det_shape (ex_collab 5 3)) (thismask_of slm s) gsky) = Fin 0)
    \<and> (\<forall>s<length ms0. \<not> ms0 ! s \<longrightarrow>
          (\<exists>fit. gs_fit (ex_collab 5 3) sciimg_v sciivar_v ex_tilts msk crm slm ex_tslits
                    (case skymask ex_reduced of
                       None \<Rightarrow> (\<lambda>i j. True)
                     | Some sk \<Rightarrow> if True then sk else (\<lambda>i j. True))
                    (ir_redux ex_reduced) s = Inr fit
               \<and> (\<forall>i j. thismask_of slm s i j \<longrightarrow> gsky i j = fit i j)
               \<and> (ms1 ! s \<longleftrightarrow>
                    np_sum (ex_collab 5 3) (select (det_shape (ex_collab 5 3)) (thismask_of slm s) fit) = Fin 0)))
    \<and> (\<forall>sobjs_a waveimg_a msa s2.
          (msa = None \<or> msa = Some ms1)
          \<and> local_skysub_extract (ex_collab 5 3) s1 sobjs_a waveimg_a msa = Inr s2 \<longrightarrow>
          (\<exists>sky obj iv. skymodel s2 = Some sky \<and> objmodel s2 = Some obj \<and> ivarmodel s2 = Some iv
             \<and> (\<forall>s<length ms1. ms1 ! s \<longrightarrow>
                  (\<forall>i j. thismask_of slm s i j \<longrightarrow>
                     sky i j = gsky i j \<and> obj i j = Fin 0 \<and> iv i j = sciivar_v i j)))))"
proof -
  from ex_global_skysub_value obtain s1 where
    r: "global_skysub (ex_collab 5 3) ex_reduced ex_tslits ex_tilts True True None = Inr s1"
    and m: "maskslits s1 = Some [False, True, False]"
    by (elim exE conjE)
  note t = global_skysub_zero_sum_slit_excluded [OF r]
  show ?thesis
    apply (rule exI [of _ s1])
    using r m t apply (intro conjI)
      apply assumption+
    done
qed

text \<open>
  In the extraction that follows, with an object on each slit, the sky model of the outer
  slits is the extraction's (7) and that of the middle slit is still the global sky (0).
\<close>

lemma ex_pipeline_value:
  "skymodel_at ex_pipeline 0 0 = Some (Fin 7) \<and> skymodel_at ex_pipeline 0 1 = Some (Fin 0)
   \<and> skymodel_at ex_pipeline 0 2 = Some (Fin 7)"
  by (simp add: ex_pipeline_def skymodel_at_def global_skysub_def get_goodslits_def
      ex_reduced_def init_def ex_collab_def
      ex_tslits_def gdslits_of_three gs_step_def gs_fit_def thismask_of_def Let_def
      assign_where_def select_def pixels_1_3 ex_sum_def build_mask_def
      local_skysub_extract_def attr_is_none_def Option.is_none_def gdslits_of_middle
      lse_step_def ex_sobjs_all_def)

end
